theory Spec2Isabelle
  imports Complex_Main
begin

section \<open>Failures thrown by the HTTP transport and by the runtime\<close>

text \<open>
  What an \<^verbatim>\<open>await\<close> can throw in this program. An \<^verbatim>\<open>AxiosError\<close> carries a
  message, an optional transport code, an optional response (status and serialised body) and
  the flag that a request object is attached. Every other \<^verbatim>\<open>Error\<close> (a \<^verbatim>\<open>TypeError\<close>
  included) carries its message only; \<^verbatim>\<open>NonError\<close> stands for a thrown value that is not
  an instance of \<^verbatim>\<open>Error\<close> (a string, say).
\<close>

datatype js_error =
    AxiosError string "string option" "(nat \<times> string) option" bool
  | Error string
  | NonError

fun ax_message :: "js_error \<Rightarrow> string" where
  "ax_message (AxiosError m c r q) = m"
| "ax_message (Error m) = m"
| "ax_message NonError = []"

section \<open>The retry engine (utils/retry.ts)\<close>

record RetryOptions =
  maxRetries :: nat
  retryDelay :: rat
  backoffMultiplier :: rat

text \<open>
  The settings are declared in package.json as an integer between 0 and 10, an integer
  between 100 and 10000 and a number between 1.0 and 3.0. Delays are kept as exact
  rationals: the rounding of IEEE doubles in \<^verbatim>\<open>delay *= backoffMultiplier\<close> is not part
  of this model.
\<close>

text \<open>
  What one call of \<^verbatim>\<open>withRetry\<close> leaves behind. \<open>outcome\<close> is \<open>Inr\<close> the value the
  promise resolves with, or \<open>Inl\<close> the value it rejects with (\<open>None\<close> is \<^verbatim>\<open>undefined\<close>,
  the initial content of \<^verbatim>\<open>lastError\<close>). \<open>invocations\<close> counts the calls of the
  operation, \<open>sleeps\<close> lists the arguments of \<^verbatim>\<open>setTimeout\<close> in order, and \<open>final\<close> is the
  state of the outside world after the last call.
\<close>

record ('s, 'e, 'a) retry_run =
  outcome :: "'e option + 'a"
  invocations :: nat
  sleeps :: "rat list"
  final :: 's

definition called :: "rat option \<Rightarrow> ('s, 'e, 'a) retry_run \<Rightarrow> ('s, 'e, 'a) retry_run" where
  "called slept r =
     r\<lparr>invocations := Suc (invocations r),
       sleeps := (case slept of None \<Rightarrow> sleeps r | Some d \<Rightarrow> d # sleeps r)\<rparr>"

text \<open>
  The \<^verbatim>\<open>for\<close> loop of \<^verbatim>\<open>withRetry\<close>, entered with the loop variables \<open>attempt\<close>,
  \<open>delay\<close> and \<open>lastError\<close>. The operation is a state transformer on the outside world: each
  call starts in the state the previous one left, which is what \<^verbatim>\<open>await operation()\<close>
  inside a sequential loop does. The predicate may throw (\<open>Inl\<close>); it is called inside the
  \<^verbatim>\<open>catch\<close> block, so what it throws leaves \<^verbatim>\<open>withRetry\<close>. In the \<^verbatim>\<open>else\<close> branch the
  predicate is called (again) to build the argument of \<^verbatim>\<open>logger.warn\<close>.
\<close>

function attempts ::
  "RetryOptions \<Rightarrow> ('s \<Rightarrow> ('e + 'a) \<times> 's) \<Rightarrow> ('e \<Rightarrow> 'e + bool) \<Rightarrow>
   nat \<Rightarrow> rat \<Rightarrow> 'e option \<Rightarrow> 's \<Rightarrow> ('s, 'e, 'a) retry_run" where
  "attempts opts operation isRetryable attempt delay lastError s =
     (if attempt \<le> maxRetries opts + 1 then
        (case operation s of
           (Inr result, s') \<Rightarrow>
             \<lparr>outcome = Inr result, invocations = 1, sleeps = [], final = s'\<rparr>
         | (Inl error, s') \<Rightarrow>
             (case (if attempt \<le> maxRetries opts then isRetryable error else Inr False) of
                Inl thrown \<Rightarrow>
                  \<lparr>outcome = Inl (Some thrown), invocations = 1, sleeps = [], final = s'\<rparr>
              | Inr True \<Rightarrow>
                  called (Some delay)
                    (attempts opts operation isRetryable (attempt + 1)
                       (delay * backoffMultiplier opts) (Some error) s')
              | Inr False \<Rightarrow>
                  (case isRetryable error of
                     Inl thrown \<Rightarrow>
                       \<lparr>outcome = Inl (Some thrown), invocations = 1, sleeps = [],
                        final = s'\<rparr>
                   | Inr b \<Rightarrow>
                       \<lparr>outcome = Inl (Some error), invocations = 1, sleeps = [],
                        final = s'\<rparr>)))
      else \<lparr>outcome = Inl lastError, invocations = 0, sleeps = [], final = s\<rparr>)"
  by pat_completeness auto
termination
  by (relation "measure (\<lambda>(opts, operation, isRetryable, attempt, delay, lastError, s).
                  maxRetries opts + 2 - attempt)") auto

declare attempts.simps [simp del]

definition withRetry ::
  "RetryOptions \<Rightarrow> ('s \<Rightarrow> ('e + 'a) \<times> 's) \<Rightarrow> ('e \<Rightarrow> 'e + bool) \<Rightarrow> 's \<Rightarrow>
   ('s, 'e, 'a) retry_run" where
  "withRetry opts operation isRetryable s =
     attempts opts operation isRetryable 1 (retryDelay opts) None s"

subsection \<open>The default predicate\<close>

definition retryableStatusCodes :: "nat list" where
  "retryableStatusCodes = [408, 429, 500, 502, 503, 504]"

definition retryableCodes :: "string list" where
  "retryableCodes = [''ETIMEDOUT'', ''ECONNRESET'', ''ECONNREFUSED'']"

definition this_undefined :: js_error where
  "this_undefined =
     Error (''Cannot read properties of undefined (reading '' @ [CHR 0x27] @ ''logger''
            @ [CHR 0x27] @ '')'')"

text \<open>
  \<^verbatim>\<open>defaultIsRetryable\<close> is an ordinary method: it reads \<^verbatim>\<open>this.logger\<close> on each of its
  three paths, after the classification is computed and before it is returned. The first
  argument is the receiver: \<open>True\<close> when the method is called on a \<^verbatim>\<open>RetryManager\<close>,
  \<open>False\<close> when it is called as a plain function, where \<^verbatim>\<open>this\<close> is \<^verbatim>\<open>undefined\<close>
  (class bodies are strict code) and reading \<^verbatim>\<open>this.logger\<close> throws a \<^verbatim>\<open>TypeError\<close>.
\<close>

definition logger_debug :: "bool \<Rightarrow> bool \<Rightarrow> js_error + bool" where
  "logger_debug this shouldRetry = (if this then Inr shouldRetry else Inl this_undefined)"

fun defaultIsRetryable :: "bool \<Rightarrow> js_error \<Rightarrow> js_error + bool" where
  "defaultIsRetryable this (AxiosError m c None q) =
     logger_debug this ((case c of None \<Rightarrow> [] | Some k \<Rightarrow> k) \<in> set retryableCodes)"
| "defaultIsRetryable this (AxiosError m c (Some (status, body)) q) =
     logger_debug this (status \<in> set retryableStatusCodes)"
| "defaultIsRetryable this e = logger_debug this False"

text \<open>
  The default value of the parameter is \<^verbatim>\<open>this.defaultIsRetryable\<close>: the method read off
  the instance, not bound to it. \<^verbatim>\<open>withRetry\<close> then calls it as \<^verbatim>\<open>isRetryable(error)\<close>,
  a plain function call. \<open>None\<close> is the omitted argument.
\<close>

definition withRetry_method ::
  "RetryOptions \<Rightarrow> ('s \<Rightarrow> (js_error + 'a) \<times> 's) \<Rightarrow> (js_error \<Rightarrow> js_error + bool) option \<Rightarrow>
   's \<Rightarrow> ('s, js_error, 'a) retry_run" where
  "withRetry_method opts operation isRetryable s =
     withRetry opts operation
       (case isRetryable of None \<Rightarrow> defaultIsRetryable False | Some p \<Rightarrow> p) s"

subsection \<open>Vocabulary for the statements about the retry engine\<close>




text \<open>
  An operation for the examples: the world is the number of calls made so far; the first
  \<open>k\<close> calls fail with \<open>e\<close>, every later call returns \<open>v\<close>.
\<close>

definition flaky :: "nat \<Rightarrow> 'e \<Rightarrow> 'a \<Rightarrow> nat \<Rightarrow> ('e + 'a) \<times> nat" where
  "flaky k e v n = (if n < k then Inl e else Inr v, Suc n)"

definition status_error :: "nat \<Rightarrow> js_error" where
  "status_error status =
     AxiosError ''Request failed'' (Some ''ERR_BAD_RESPONSE'') (Some (status, [])) True"

definition default_options :: RetryOptions where
  "default_options = \<lparr>maxRetries = 3, retryDelay = 1000, backoffMultiplier = 3 / 2\<rparr>"


section \<open>Strings\<close>

text \<open>
  A string is a list of characters, each standing for one code unit below 256. Within
  that range the characters that \<^verbatim>\<open>trim()\<close> removes and \<^verbatim>\<open>\s\<close> matches are tab, line
  feed, vertical tab, form feed, carriage return, space and the no-break space; \<^verbatim>\<open>\w\<close>
  matches the ASCII letters, the digits and the underscore.
\<close>

definition is_space :: "char \<Rightarrow> bool" where
  "is_space c = ((of_char c :: nat) \<in> set [9, 10, 11, 12, 13, 32, 160])"

definition is_word :: "char \<Rightarrow> bool" where
  "is_word c =
     (let n = (of_char c :: nat)
      in (48 \<le> n \<and> n \<le> 57) \<or> (65 \<le> n \<and> n \<le> 90) \<or> n = 95 \<or> (97 \<le> n \<and> n \<le> 122))"

definition trim :: "string \<Rightarrow> string" where
  "trim s = rev (dropWhile is_space (rev (dropWhile is_space s)))"

definition startsWith :: "string \<Rightarrow> string \<Rightarrow> bool" where
  "startsWith s p = (take (length p) s = p)"

text \<open>
  \<^verbatim>\<open>subject.replace(pattern, replacement)\<close> with a string pattern: the first occurrence
  is replaced. The dollar patterns of the replacement string are not modelled.
\<close>

fun replace_first :: "string \<Rightarrow> string \<Rightarrow> string \<Rightarrow> string" where
  "replace_first pat rep [] = (if pat = [] then rep else [])"
| "replace_first pat rep (c # cs) =
     (if startsWith (c # cs) pat then rep @ drop (length pat) (c # cs)
      else c # replace_first pat rep cs)"

fun digit_char :: "nat \<Rightarrow> char" where
  "digit_char n = char_of (48 + n)"

fun show_nat :: "nat \<Rightarrow> string" where
  "show_nat n = (if n < 10 then [digit_char n] else show_nat (n div 10) @ [digit_char (n mod 10)])"

declare show_nat.simps [simp del]

section \<open>Requests, responses and what the user sees\<close>

text \<open>
  A request handed to axios: a GET of a URL, or a POST of a URL with the model name and
  the text (the prompt, or the content of the single chat message). The sampling options
  of the chat payload are configuration values copied into the body; no branch reads them.
  Of a response body the program reads \<^verbatim>\<open>data.models\<close> (the names of the entries),
  \<^verbatim>\<open>data.message.content\<close> and \<^verbatim>\<open>data.response\<close>; \<open>json\<close> is \<^verbatim>\<open>JSON.stringify(data)\<close>.
\<close>

datatype request = Get string | Post string string string

record response_data =
  models :: "string list option"
  message_content :: "string option"
  response_text :: "string option"
  json :: string

datatype event =
    ConsoleLog string
  | ConsoleWarn string
  | ConsoleError string
  | ShowInformation string
  | ShowWarning string
  | ShowError string
  | ProgressReport nat string
  | TerminalSendText string

text \<open>What a \<^verbatim>\<open>catch\<close> clause reads off the value it caught (\<open>None\<close> is \<^verbatim>\<open>undefined\<close>).\<close>

fun is_AxiosError :: "js_error option \<Rightarrow> bool" where
  "is_AxiosError (Some (AxiosError m c r q)) = True"
| "is_AxiosError e = False"

fun is_Error :: "js_error option \<Rightarrow> bool" where
  "is_Error (Some (AxiosError m c r q)) = True"
| "is_Error (Some (Error m)) = True"
| "is_Error e = False"

fun err_message :: "js_error option \<Rightarrow> string" where
  "err_message (Some e) = (case e of NonError \<Rightarrow> ''undefined'' | _ \<Rightarrow> ax_message e)"
| "err_message None = ''undefined''"

fun err_response :: "js_error option \<Rightarrow> (nat \<times> string) option" where
  "err_response (Some (AxiosError m c r q)) = r"
| "err_response e = None"

fun err_request :: "js_error option \<Rightarrow> bool" where
  "err_request (Some (AxiosError m c r q)) = q"
| "err_request e = False"

section \<open>The fix command (extension.ts)\<close>

subsection \<open>Extracting the code block\<close>

definition fence :: string where
  "fence = [CHR 0x60, CHR 0x60, CHR 0x60]"

text \<open>
  The expression is \<^verbatim>\<open>/```(?:\w*\n)?([\s\S]*?)```$/\<close>, without flags. \<open>lazy_body r\<close> matches
  \<^verbatim>\<open>([\s\S]*?)```$\<close> at the start of \<open>r\<close> and returns the group: the lazy star tries the
  empty group first, which needs \<open>r\<close> to be exactly the closing fence, and otherwise takes
  one more character. \<open>lang_tag r\<close> matches \<^verbatim>\<open>\w*\n\<close> at the start of \<open>r\<close> and returns the
  rest: the run of word characters is maximal, since a shorter one is followed by a word
  character and not by the line feed. \<open>match_here\<close> tries the expression at the start of
  its argument, the optional tag first; \<open>codeBlockRegex\<close> is \<^verbatim>\<open>String.prototype.match\<close>,
  which tries every start position from the left, and returns group 1 of the first match.
\<close>

fun lazy_body :: "string \<Rightarrow> string option" where
  "lazy_body [] = None"
| "lazy_body (c # cs) =
     (if c # cs = fence then Some [] else map_option ((#) c) (lazy_body cs))"

definition lang_tag :: "string \<Rightarrow> string option" where
  "lang_tag r =
     (case dropWhile is_word r of
        [] \<Rightarrow> None
      | c # cs \<Rightarrow> if c = CHR 0x0A then Some cs else None)"

definition match_here :: "string \<Rightarrow> string option" where
  "match_here s =
     (if startsWith s fence then
        (case (case lang_tag (drop 3 s) of None \<Rightarrow> None | Some r \<Rightarrow> lazy_body r) of
           Some g \<Rightarrow> Some g
         | None \<Rightarrow> lazy_body (drop 3 s))
      else None)"

fun codeBlockRegex :: "string \<Rightarrow> string option" where
  "codeBlockRegex [] = match_here []"
| "codeBlockRegex (c # cs) =
     (case match_here (c # cs) of Some g \<Rightarrow> Some g | None \<Rightarrow> codeBlockRegex cs)"

text \<open>
  Lines 69 to 89 of \<^verbatim>\<open>getCorrectionFromOllama\<close>: the response text is trimmed; when the
  expression matches and group 1 is not the empty string (\<^verbatim>\<open>match && match[1]\<close>), the
  trimmed group replaces it.
\<close>

definition extractCode :: "string \<Rightarrow> string" where
  "extractCode rawText =
     (let correctedCode = trim rawText
      in case codeBlockRegex correctedCode of
           None \<Rightarrow> correctedCode
         | Some g \<Rightarrow> if g \<noteq> [] then trim g else correctedCode)"

text \<open>Vocabulary for the statements about \<open>extractCode\<close>.\<close>

fun contains_fence :: "string \<Rightarrow> bool" where
  "contains_fence [] = False"
| "contains_fence (c # cs) = (startsWith (c # cs) fence \<or> contains_fence cs)"

definition tag_ok :: "string \<Rightarrow> bool" where
  "tag_ok tag = (tag = [] \<or> (\<exists>w. tag = w @ [CHR 0x0A] \<and> (\<forall>c \<in> set w. is_word c)))"

definition reply :: string where
  "reply = ''Here: '' @ fence @ ''js'' @ [CHR 0x0A] @ ''x = 1'' @ [CHR 0x0A] @ fence @ ''  ''"

subsection \<open>Asking the model for a correction\<close>

text \<open>
  The settings of the extension, as the configuration store holds them. package.json
  declares a default for each, so a read never finds a setting undefined.
\<close>

record config =
  ollamaApiUrl :: string
  modelName :: string
  requestTimeout :: int
  enableNotifications :: bool
  logLevel :: string
  promptPrefix :: string
  promptSuffix :: string
  cfg_maxRetries :: nat
  cfg_retryDelay :: rat
  retryBackoffMultiplier :: rat

definition build_prompt :: "config \<Rightarrow> string \<Rightarrow> string \<Rightarrow> string" where
  "build_prompt cfg languageId codeSnippet =
     replace_first ''{language}'' languageId (promptPrefix cfg) @ codeSnippet @ promptSuffix cfg"

definition api_error_message :: "js_error option \<Rightarrow> string" where
  "api_error_message err =
     ''Error calling Ollama API: '' @ err_message err @ ''.'' @
     (case err_response err of
        Some (status, body) \<Rightarrow> '' Status: '' @ show_nat status @ ''. Data: '' @ body
      | None \<Rightarrow>
          if err_request err
          then '' No response received from Ollama. Check if Ollama is running and accessible.''
          else [])"

text \<open>
  \<^verbatim>\<open>getCorrectionFromOllama\<close>. \<open>transport\<close> is what axios does with the request: \<open>Inr\<close>
  the response body, \<open>Inl\<close> the error it rejects with. A body without the \<^verbatim>\<open>response\<close> field makes
  \<^verbatim>\<open>response.data.response.trim()\<close> throw a \<^verbatim>\<open>TypeError\<close> inside the \<^verbatim>\<open>try\<close> block. The
  result is \<open>Inr\<close> the value the promise resolves with (\<open>None\<close> is \<^verbatim>\<open>null\<close>), or \<open>Inl\<close> what
  it rejects with, and the list of what was logged and shown.
\<close>

definition trim_undefined :: js_error where
  "trim_undefined =
     Error (''Cannot read properties of undefined (reading '' @ [CHR 0x27] @ ''trim''
            @ [CHR 0x27] @ '')'')"

definition debug_log :: "config \<Rightarrow> string \<Rightarrow> event list" where
  "debug_log cfg text = (if logLevel cfg = ''debug'' then [ConsoleLog text] else [])"

definition getCorrectionFromOllama ::
  "config \<Rightarrow> (request \<Rightarrow> js_error + response_data) \<Rightarrow> string \<Rightarrow> string \<Rightarrow>
   (js_error option + string option) \<times> event list" where
  "getCorrectionFromOllama cfg transport codeSnippet languageId =
     (let prompt = build_prompt cfg languageId codeSnippet;
          sending = debug_log cfg (''Sending to '' @ modelName cfg @ ''. Prompt: '' @ take 500 prompt);
          attempt =
            (case transport (Post (ollamaApiUrl cfg) (modelName cfg) prompt) of
               Inl thrown \<Rightarrow> Inl (Some thrown)
             | Inr data \<Rightarrow>
                 (case response_text data of
                    None \<Rightarrow> Inl (Some trim_undefined)
                  | Some text \<Rightarrow> Inr text))
      in case attempt of
           Inr text \<Rightarrow>
             (Inr (Some (extractCode text)),
              sending @ debug_log cfg (''Raw response from model: '' @ trim text) @
              debug_log cfg
                (case codeBlockRegex (trim text) of
                   None \<Rightarrow> ''No final code block detected, using trimmed response directly.''
                 | Some g \<Rightarrow>
                     if g \<noteq> [] then ''Extracted code from block: '' @ trim g
                     else ''No final code block detected, using trimmed response directly.''))
         | Inl err \<Rightarrow>
             (Inr None,
              sending @
              (case err_response err of
                 Some (status, body) \<Rightarrow> debug_log cfg (''Ollama API Error Response: '' @ body)
               | None \<Rightarrow> []) @
              [ConsoleError (''API Call Error: '' @ api_error_message err)] @
              (if enableNotifications cfg then [ShowError (api_error_message err)] else [])))"

subsection \<open>The command\<close>

text \<open>
  An editor has an identity, shows a document and has a selection, the span between its
  start and end offsets. The user interface is the active editor, if any, and the text and
  language of every document.
\<close>

record editor =
  editor_id :: nat
  document :: nat
  selection :: "nat \<times> nat"

record ui =
  activeTextEditor :: "editor option"
  texts :: "nat \<Rightarrow> string"
  languageId :: "nat \<Rightarrow> string"

definition getText :: "string \<Rightarrow> nat \<times> nat \<Rightarrow> string" where
  "getText text rng = take (snd rng - fst rng) (drop (fst rng) text)"

definition replace_range :: "string \<Rightarrow> nat \<times> nat \<Rightarrow> string \<Rightarrow> string" where
  "replace_range text rng new = take (fst rng) text @ new @ drop (snd rng) text"

text \<open>
  What the surroundings decide while the command runs: the transport, whether the
  cancellation token is set at the check before and at the check after the request, the
  user interface as it is when the request has returned, and how \<^verbatim>\<open>editor.edit\<close>
  settles (resolves true, resolves false, or rejects with a message).
\<close>

datatype edit_result = EditApplied | EditRefused | EditRejected string

record fix_env =
  transport :: "request \<Rightarrow> js_error + response_data"
  cancelled_before :: bool
  cancelled_after :: bool
  later :: ui
  edit_settles :: edit_result

text \<open>
  What the command leaves: the edit that was applied, if any (the document, the range and
  the new text), and what was logged and shown.
\<close>

record fix_outcome =
  applied :: "(nat \<times> (nat \<times> nat) \<times> string) option"
  shown :: "event list"

definition cancellation_handler :: "event list" where
  "cancellation_handler =
     [ConsoleLog ''User cancelled the Ollama request.'',
      ShowInformation ''Ollama code correction cancelled.'']"

definition no_changes_message :: string where
  "no_changes_message = ''Ollama AI suggests no changes to the selected code.''"

definition fixSelectedCode :: "config \<Rightarrow> fix_env \<Rightarrow> ui \<Rightarrow> fix_outcome" where
  "fixSelectedCode cfg env ui0 =
     (case activeTextEditor ui0 of
        None \<Rightarrow> \<lparr>applied = None, shown = [ShowInformation ''No active text editor.'']\<rparr>
      | Some editor \<Rightarrow>
          if fst (selection editor) = snd (selection editor) then
            \<lparr>applied = None,
             shown = [ShowInformation ''No text selected. Please select the code to fix.'']\<rparr>
          else
            let selectedText = getText (texts ui0 (document editor)) (selection editor);
                language = languageId ui0 (document editor);
                started = [ProgressReport 0 ''Sending code to local Ollama AI...'']
            in if cancelled_before env then
                 \<lparr>applied = None, shown = started @ cancellation_handler\<rparr>
               else
                 let (correctedCode, logged) =
                       getCorrectionFromOllama cfg (transport env) selectedText language;
                     sofar = started @ logged
                 in if cancelled_after env then
                      \<lparr>applied = None, shown = sofar @ cancellation_handler\<rparr>
                    else
                      (case correctedCode of
                         Inl thrown \<Rightarrow> \<lparr>applied = None, shown = sofar\<rparr>
                       | Inr None \<Rightarrow> \<lparr>applied = None, shown = sofar\<rparr>
                       | Inr (Some code) \<Rightarrow>
                           if code = selectedText then
                             \<lparr>applied = None,
                              shown = sofar @
                                [ShowInformation no_changes_message,
                                 ProgressReport 100 ''No changes suggested.'']\<rparr>
                           else
                             let applying =
                                   sofar @ [ProgressReport 80 ''Applying AI suggestions...''];
                                 finished = [ProgressReport 100 ''Finished.'']
                             in (case activeTextEditor (later env) of
                                   Some currentEditor \<Rightarrow>
                                     if document currentEditor = document editor \<and>
                                        selection currentEditor = selection editor
                                     then
                                       (case edit_settles env of
                                          EditApplied \<Rightarrow>
                                            \<lparr>applied =
                                               Some (document editor, selection editor, code),
                                             shown = applying @ finished @
                                               [ShowInformation ''Code updated by Ollama AI!'',
                                                ConsoleLog ''Code replacement successful.'']\<rparr>
                                        | EditRefused \<Rightarrow>
                                            \<lparr>applied = None,
                                             shown = applying @ finished @
                                               [ShowError ''Failed to apply code changes.'',
                                                ConsoleLog ''Code replacement failed.'']\<rparr>
                                        | EditRejected why \<Rightarrow>
                                            \<lparr>applied = None,
                                             shown = applying @ finished @
                                               [ShowError (''Failed to apply edits: '' @ why),
                                                ConsoleError ''Edit operation failed''] \<rparr>)
                                     else
                                       \<lparr>applied = None,
                                        shown = applying @
                                          [ShowWarning
                                             ''Editor selection or focus changed during AI processing. Suggestion not applied automatically.'',
                                           ConsoleWarn
                                             (''Selection/focus changed, correction not applied. Suggested code: '' @ code)]
                                          @ finished\<rparr>
                                 | None \<Rightarrow>
                                     \<lparr>applied = None,
                                      shown = applying @
                                        [ShowWarning
                                           ''Editor selection or focus changed during AI processing. Suggestion not applied automatically.'',
                                         ConsoleWarn
                                           (''Selection/focus changed, correction not applied. Suggested code: '' @ code)]
                                        @ finished\<rparr>)))"

text \<open>The text of a document once the command has returned.\<close>

definition text_after :: "fix_env \<Rightarrow> fix_outcome \<Rightarrow> nat \<Rightarrow> string" where
  "text_after env out d =
     (case applied out of
        None \<Rightarrow> texts (later env) d
      | Some (d', rng, new) \<Rightarrow>
          if d = d' then replace_range (texts (later env) d) rng new
          else texts (later env) d)"

text \<open>Vocabulary for the statements about the command.\<close>

definition selectedText :: "ui \<Rightarrow> editor \<Rightarrow> string" where
  "selectedText u editor = getText (texts u (document editor)) (selection editor)"

definition correction ::
  "config \<Rightarrow> fix_env \<Rightarrow> ui \<Rightarrow> editor \<Rightarrow> js_error option + string option" where
  "correction cfg env u editor =
     fst (getCorrectionFromOllama cfg (transport env) (selectedText u editor)
            (languageId u (document editor)))"

text \<open>Values for the examples.\<close>

definition example_config :: config where
  "example_config =
     \<lparr>ollamaApiUrl = ''http://localhost:11434'', modelName = ''llama2'',
      requestTimeout = 90000, enableNotifications = True, logLevel = ''info'',
      promptPrefix = ''Language: {language} '', promptSuffix = '' [/INST]'',
      cfg_maxRetries = 3, cfg_retryDelay = 1000, retryBackoffMultiplier = 3 / 2\<rparr>"

definition answers :: "string \<Rightarrow> request \<Rightarrow> js_error + response_data" where
  "answers text req =
     Inr \<lparr>models = None, message_content = None, response_text = Some text, json = ''{}''\<rparr>"

definition example_editor :: "nat \<Rightarrow> editor" where
  "example_editor n = \<lparr>editor_id = n, document = 0, selection = (0, 6)\<rparr>"

definition example_ui :: "nat \<Rightarrow> ui" where
  "example_ui n =
     \<lparr>activeTextEditor = Some (example_editor n), texts = (\<lambda>d. ''x == 1; y''),
      languageId = (\<lambda>d. ''python'')\<rparr>"

definition example_env :: "string \<Rightarrow> bool \<Rightarrow> nat \<Rightarrow> fix_env" where
  "example_env text cancelled n =
     \<lparr>transport = answers text, cancelled_before = False, cancelled_after = cancelled,
      later = example_ui n, edit_settles = EditApplied\<rparr>"

definition refused :: js_error where
  "refused = AxiosError ''connect ECONNREFUSED'' (Some ''ECONNREFUSED'') None True"

section \<open>The chat provider (chatProvider.ts)\<close>

text \<open>
  The messages the provider takes from the locale table, and the ones written in the
  source. The latter are Russian in the source and are written here in Latin letters.
\<close>

record strings =
  modelNotInstalled :: string
  modelInstallStarted :: string
  modelInstallProgress :: string
  invalidUrl :: string

definition interaction_error :: string where
  "interaction_error = ''Oshibka vzaimodeistviya s Ollama: ''"

definition no_answer :: string where
  "no_answer =
     [CHR 0x0A] @ ''Net otveta ot servera Ollama. Proverte, chto servis zapushchen i dostupen.''"

definition unknown_error :: string where
  "unknown_error = ''Neizvestnaya oshibka''"

text \<open>
  The surroundings of the provider: whether \<^verbatim>\<open>new URL(s)\<close> accepts a string, what the
  transport answers to a request (the answer may depend on how many requests were sent
  before), what the user answers to the error prompt and to the pick list (the answers may
  depend on how many prompts were shown before), and the locale table.
\<close>

datatype choice = InstallModel | ChangeModel | Dismissed

record chat_env =
  url_parses :: "string \<Rightarrow> bool"
  server :: "request \<Rightarrow> nat \<Rightarrow> js_error + response_data"
  user_choice :: "nat \<Rightarrow> choice"
  user_pick :: "nat \<Rightarrow> string list \<Rightarrow> string option"
  strings :: strings

text \<open>
  What changes while the provider runs: the configuration store, the requests handed to
  axios (oldest first), the number of error prompts shown, what was logged and shown, and
  the number of times \<^verbatim>\<open>getOllamaResponse\<close> has called itself.
\<close>

record chat_state =
  config :: config
  sent :: "request list"
  prompts :: nat
  events :: "event list"
  reentries :: nat

definition log :: "event list \<Rightarrow> chat_state \<Rightarrow> chat_state" where
  "log es st = st\<lparr>events := events st @ es\<rparr>"

definition axios :: "chat_env \<Rightarrow> request \<Rightarrow> chat_state \<Rightarrow> (js_error + response_data) \<times> chat_state" where
  "axios env req st = (server env req (length (sent st)), st\<lparr>sent := sent st @ [req]\<rparr>)"

text \<open>
  The constructor of \<^verbatim>\<open>RetryManager\<close> reads the three settings; the constructor of the
  provider constructs one \<^verbatim>\<open>RetryManager\<close> and keeps it in \<^verbatim>\<open>_retryManager\<close>.
\<close>

definition new_RetryManager :: "config \<Rightarrow> RetryOptions" where
  "new_RetryManager cfg =
     \<lparr>maxRetries = cfg_maxRetries cfg, retryDelay = cfg_retryDelay cfg,
      backoffMultiplier = retryBackoffMultiplier cfg\<rparr>"

record provider =
  retryManager :: RetryOptions

definition new_ChatProvider :: "config \<Rightarrow> provider" where
  "new_ChatProvider cfg = \<lparr>retryManager = new_RetryManager cfg\<rparr>"

definition strip_trailing_slashes :: "string \<Rightarrow> string" where
  "strip_trailing_slashes s = rev (dropWhile (\<lambda>c. c = CHR ''/'') (rev s))"

definition default_base :: string where
  "default_base = ''http://localhost:11434''"

text \<open>Lines 119 to 128: the base URL, or the default when \<^verbatim>\<open>new URL\<close> throws.\<close>

definition resolve_base :: "chat_env \<Rightarrow> chat_state \<Rightarrow> string \<times> chat_state" where
  "resolve_base env st =
     (let baseApiUrl = ollamaApiUrl (config st)
      in if url_parses env baseApiUrl then (strip_trailing_slashes baseApiUrl, st)
         else (default_base,
               log [ConsoleError (invalidUrl (strings env) @ '' '' @ baseApiUrl @ '': Invalid URL'')] st))"

text \<open>
  Lines 136 to 177: the availability check. It ends in one of three ways: the flow goes on
  to the generation request, the function returns a text, or the function calls itself.
  \<^verbatim>\<open>showQuickPick\<close> returns one of the items or \<^verbatim>\<open>undefined\<close>; the empty string is falsy,
  so \<^verbatim>\<open>if (newModel)\<close> treats it as no pick. The prompts and \<^verbatim>\<open>config.update\<close> are taken
  not to throw.
\<close>

datatype check = Proceed | Answer string | Again

definition showQuickPick :: "chat_env \<Rightarrow> nat \<Rightarrow> string list \<Rightarrow> string option" where
  "showQuickPick env k items =
     (case user_pick env k items of
        None \<Rightarrow> None
      | Some x \<Rightarrow> if x \<in> set items then Some x else None)"

definition check_failed :: string where
  "check_failed = ''Failed to check available models''"

definition check_model ::
  "chat_env \<Rightarrow> provider \<Rightarrow> string \<Rightarrow> string \<Rightarrow> chat_state \<Rightarrow> check \<times> chat_state" where
  "check_model env this baseApiUrl model st =
     (let r = withRetry_method (retryManager this) (axios env (Get (baseApiUrl @ ''/api/tags'')))
                None st;
          st1 = final r
      in case outcome r of
           Inl error \<Rightarrow>
             (Proceed,
              log ([ConsoleError check_failed] @
                   (if is_Error error
                    then [ShowWarning (''Failed to check models: '' @ err_message error)]
                    else [])) st1)
         | Inr response \<Rightarrow>
            (let availableModels = (case models response of None \<Rightarrow> [] | Some ms \<Rightarrow> ms)
             in if model \<in> set availableModels then (Proceed, st1)
                else
                  let notInstalled = replace_first ''{0}'' model (modelNotInstalled (strings env));
                      st2 = log [ConsoleError notInstalled, ShowError notInstalled]
                              (st1\<lparr>prompts := Suc (prompts st1)\<rparr>)
                  in (case user_choice env (prompts st1) of
                       InstallModel \<Rightarrow>
                         (Answer (replace_first ''{0}'' model (modelInstallStarted (strings env))),
                          log [TerminalSendText (''ollama pull '' @ model),
                               ShowInformation
                                 (replace_first ''{0}'' model (modelInstallProgress (strings env)))]
                            st2)
                     | ChangeModel \<Rightarrow>
                         (case showQuickPick env (prompts st1) availableModels of
                            None \<Rightarrow> (Answer notInstalled, st2)
                          | Some newModel \<Rightarrow>
                              if newModel \<noteq> []
                              then (Again, st2\<lparr>config := (config st2)\<lparr>modelName := newModel\<rparr>\<rparr>)
                              else (Answer notInstalled, st2))
                     | Dismissed \<Rightarrow> (Answer notInstalled, st2))))"

text \<open>Lines 228 to 257: the text the second \<^verbatim>\<open>catch\<close> clause returns.\<close>

definition chat_error_message :: "js_error option \<Rightarrow> string" where
  "chat_error_message error =
     interaction_error @
     (if is_AxiosError error then
        err_message error @
        (case err_response error of
           Some (status, body) \<Rightarrow>
             '' (Status: '' @ show_nat status @ '')'' @
             (if body \<noteq> [] then [CHR 0x0A] @ ''Detali: '' @ body else [])
         | None \<Rightarrow> if err_request error then no_answer else [])
      else if is_Error error then err_message error
      else unknown_error)"

definition http_scheme :: "string \<Rightarrow> bool" where
  "http_scheme url = (startsWith url ''http://'' \<or> startsWith url ''https://'')"

text \<open>
  Lines 179 to 258: the scheme check and the generation request, both inside the second
  \<^verbatim>\<open>try\<close> block, whose \<^verbatim>\<open>catch\<close> clause turns whatever was thrown into the returned text.
  \<open>cfg\<close> is the configuration object read at the start of the call.
\<close>

definition chat_text :: "response_data \<Rightarrow> string" where
  "chat_text response =
     (case message_content response of
        None \<Rightarrow> json response
      | Some content \<Rightarrow> if content \<noteq> [] then trim content else json response)"

definition debug_chat :: "config \<Rightarrow> string \<Rightarrow> event list" where
  "debug_chat cfg text = (if logLevel cfg = ''debug'' then [ConsoleLog text] else [])"

definition generate ::
  "chat_env \<Rightarrow> provider \<Rightarrow> config \<Rightarrow> string \<Rightarrow> string \<Rightarrow> string \<Rightarrow> chat_state \<Rightarrow>
   (js_error option + string) \<times> chat_state" where
  "generate env this cfg baseApiUrl model message st =
     (let fullApiUrl = baseApiUrl @ ''/api/chat'';
          st0 = log (debug_chat cfg (''Request details: '' @ fullApiUrl @ '' '' @ model)) st;
          tried =
            (if \<not> http_scheme fullApiUrl
             then (Inl (Some (Error (''Invalid URL protocol: '' @ fullApiUrl))), st0)
             else
               let r = withRetry_method (retryManager this)
                         (axios env (Post fullApiUrl model message)) None st0
               in case outcome r of
                    Inl error \<Rightarrow> (Inl error, final r)
                  | Inr response \<Rightarrow>
                      (Inr (chat_text response),
                       log (debug_chat cfg (''Raw response from model: '' @ json response))
                         (final r)))
      in case tried of
           (Inr text, st') \<Rightarrow> (Inr text, st')
         | (Inl error, st') \<Rightarrow>
             (Inr (chat_error_message error),
              log ((if is_AxiosError error
                    then debug_chat cfg (''API error details: '' @ err_message error)
                    else []) @
                   [ConsoleError (chat_error_message error)]) st'))"

text \<open>
  \<^verbatim>\<open>getOllamaResponse\<close>. The first argument bounds the depth of the calls the function
  makes to itself: \<open>None\<close> means that the bound was reached, which is how a run that never
  returns shows. The result is \<open>Inr\<close> the text the promise resolves with or \<open>Inl\<close> what it
  rejects with; the result of the call the function makes to itself is returned as it is.
\<close>

fun getOllamaResponse ::
  "nat \<Rightarrow> chat_env \<Rightarrow> provider \<Rightarrow> string \<Rightarrow> chat_state \<Rightarrow>
   ((js_error option + string) \<times> chat_state) option" where
  "getOllamaResponse 0 env this message st = None"
| "getOllamaResponse (Suc fuel) env this message st =
     (let cfg = config st;
          (baseApiUrl, st1) = resolve_base env st
      in case check_model env this baseApiUrl (modelName cfg) st1 of
           (Answer text, st2) \<Rightarrow> Some (Inr text, st2)
         | (Again, st2) \<Rightarrow>
             getOllamaResponse fuel env this message (st2\<lparr>reentries := Suc (reentries st2)\<rparr>)
         | (Proceed, st2) \<Rightarrow>
             Some (generate env this cfg baseApiUrl (modelName cfg) message st2))"

text \<open>Vocabulary for the statements about the provider.\<close>

definition catalog ::
  "chat_env \<Rightarrow> provider \<Rightarrow> string \<Rightarrow> chat_state \<Rightarrow> (chat_state, js_error, response_data) retry_run" where
  "catalog env this baseApiUrl st =
     withRetry_method (retryManager this) (axios env (Get (baseApiUrl @ ''/api/tags''))) None st"

definition generation ::
  "chat_env \<Rightarrow> provider \<Rightarrow> string \<Rightarrow> string \<Rightarrow> string \<Rightarrow> chat_state \<Rightarrow>
   (chat_state, js_error, response_data) retry_run" where
  "generation env this url model message st =
     withRetry_method (retryManager this) (axios env (Post url model message)) None st"

fun is_Post :: "request \<Rightarrow> bool" where
  "is_Post (Post url model text) = True"
| "is_Post (Get url) = False"

text \<open>What a run returned: the answer, the requests sent, and the depth of the recursion.\<close>

definition answer_of ::
  "((js_error option + string) \<times> chat_state) option \<Rightarrow> (js_error option + string) option" where
  "answer_of run = map_option fst run"

definition requests_of ::
  "((js_error option + string) \<times> chat_state) option \<Rightarrow> request list option" where
  "requests_of run = map_option (\<lambda>p. sent (snd p)) run"

definition posts_of ::
  "((js_error option + string) \<times> chat_state) option \<Rightarrow> request list option" where
  "posts_of run = map_option (\<lambda>p. filter is_Post (sent (snd p))) run"

definition depth_of ::
  "((js_error option + string) \<times> chat_state) option \<Rightarrow> nat option" where
  "depth_of run = map_option (\<lambda>p. reentries (snd p)) run"

definition set_retry :: "nat \<Rightarrow> rat \<Rightarrow> rat \<Rightarrow> chat_state \<Rightarrow> chat_state" where
  "set_retry n d m st =
     st\<lparr>config := (config st)\<lparr>cfg_maxRetries := n, cfg_retryDelay := d,
                                 retryBackoffMultiplier := m\<rparr>\<rparr>"

text \<open>
  Values for the examples. The example parser accepts the strings that begin with a scheme
  (a letter, then letters, digits, plus, minus or dot, then a colon): \<^verbatim>\<open>new URL\<close> without a
  base rejects every string that does not.
\<close>

definition is_alpha :: "char \<Rightarrow> bool" where
  "is_alpha c =
     (let n = (of_char c :: nat) in (65 \<le> n \<and> n \<le> 90) \<or> (97 \<le> n \<and> n \<le> 122))"

definition scheme_char :: "char \<Rightarrow> bool" where
  "scheme_char c =
     (let n = (of_char c :: nat)
      in is_alpha c \<or> (48 \<le> n \<and> n \<le> 57) \<or> n = 43 \<or> n = 45 \<or> n = 46)"

definition has_scheme :: "string \<Rightarrow> bool" where
  "has_scheme s =
     (case s of
        [] \<Rightarrow> False
      | c # cs \<Rightarrow>
          is_alpha c \<and>
          (case dropWhile scheme_char cs of [] \<Rightarrow> False | d # ds \<Rightarrow> d = CHR 0x3A))"

definition english :: strings where
  "english =
     \<lparr>modelNotInstalled = ''Model {0} is not installed.'',
      modelInstallStarted = ''Started installing model {0}.'',
      modelInstallProgress = ''Installing model {0}. Please wait for completion in terminal.'',
      invalidUrl = ''Invalid URL''\<rparr>"

definition lists :: "string list \<Rightarrow> response_data" where
  "lists names =
     \<lparr>models = Some names, message_content = None, response_text = None, json = ''{}''\<rparr>"

definition says :: "string \<Rightarrow> response_data" where
  "says text =
     \<lparr>models = None, message_content = Some text, response_text = None, json = ''{}''\<rparr>"

text \<open>A server that lists the given models and answers every chat request with \<open>hi\<close>.\<close>

definition serving :: "string list \<Rightarrow> request \<Rightarrow> nat \<Rightarrow> js_error + response_data" where
  "serving names req n = (case req of Get url \<Rightarrow> Inr (lists names) | Post url m t \<Rightarrow> Inr (says ''hi''))"

definition unreachable :: "request \<Rightarrow> nat \<Rightarrow> js_error + response_data" where
  "unreachable req n = Inl refused"

text \<open>A server without the catalog endpoint (status 404) that answers every chat request.\<close>

definition catalog_missing :: "request \<Rightarrow> nat \<Rightarrow> js_error + response_data" where
  "catalog_missing req n =
     (case req of Get url \<Rightarrow> Inl (status_error 404) | Post url m t \<Rightarrow> Inr (says ''hi''))"

definition fails_with :: "js_error \<Rightarrow> request \<Rightarrow> js_error + response_data" where
  "fails_with e req = Inl e"

definition example_env_chat ::
  "(request \<Rightarrow> nat \<Rightarrow> js_error + response_data) \<Rightarrow> choice \<Rightarrow> string option \<Rightarrow> chat_env" where
  "example_env_chat srv c pick =
     \<lparr>url_parses = has_scheme, server = srv, user_choice = (\<lambda>k. c),
      user_pick = (\<lambda>k items. pick), strings = english\<rparr>"

definition ftp_config :: config where
  "ftp_config = example_config\<lparr>ollamaApiUrl := ''ftp://files.example/''\<rparr>"

definition malformed_config :: config where
  "malformed_config = example_config\<lparr>ollamaApiUrl := ''not a url''\<rparr>"

definition foo_config :: config where
  "foo_config = example_config\<lparr>modelName := ''foo''\<rparr>"

definition example_provider :: provider where
  "example_provider = new_ChatProvider example_config"

text \<open>
  A server whose catalog changes: the first catalog request is answered with \<open>bar\<close>, every
  later one with \<open>baz\<close>; and a user who always chooses to change the model, picking \<open>bar\<close>
  at the first prompt and \<open>baz\<close> afterwards.
\<close>

definition shifting :: "request \<Rightarrow> nat \<Rightarrow> js_error + response_data" where
  "shifting req n =
     (case req of
        Get url \<Rightarrow> Inr (lists (if n = 0 then [''bar''] else [''baz'']))
      | Post url m t \<Rightarrow> Inr (says ''hi''))"

definition in_turn :: "nat \<Rightarrow> string list \<Rightarrow> string option" where
  "in_turn k items = (if k = 0 then Some ''bar'' else Some ''baz'')"

definition always_change :: "nat \<Rightarrow> choice" where
  "always_change k = ChangeModel"

definition restless_env :: chat_env where
  "restless_env =
     \<lparr>url_parses = has_scheme, server = shifting, user_choice = always_change,
      user_pick = in_turn, strings = english\<rparr>"

definition start :: "config \<Rightarrow> chat_state" where
  "start cfg = \<lparr>config = cfg, sent = [], prompts = 0, events = [], reentries = 0\<rparr>"

section \<open>Properties of the retry engine\<close>
















lemma withRetry_unbound_default:
  assumes "operation s = (Inl e, s')"
  shows "withRetry_method opts operation None s =
           \<lparr>outcome = Inl (Some this_undefined), invocations = 1, sleeps = [], final = s'\<rparr>"
proof -
  have p: "defaultIsRetryable False e = Inl this_undefined"
    by (cases "(False, e)" rule: defaultIsRetryable.cases) (simp_all add: logger_debug_def)
  have "attempts opts operation (defaultIsRetryable False) 1 (retryDelay opts) None s =
      \<lparr>outcome = Inl (Some this_undefined), invocations = 1, sleeps = [], final = s'\<rparr>"
    using assms p by (subst attempts.simps) simp
  then show ?thesis
    by (simp add: withRetry_method_def withRetry_def)
qed

lemma defaultIsRetryable_bound:
  "defaultIsRetryable True e = Inr b \<longleftrightarrow>
     (b \<longleftrightarrow> (\<exists>m c q status body. e = AxiosError m c (Some (status, body)) q \<and>
                 status \<in> {408, 429, 500, 502, 503, 504})
          \<or> (\<exists>m c q. e = AxiosError m (Some c) None q \<and>
                 c \<in> {''ETIMEDOUT'', ''ECONNRESET'', ''ECONNREFUSED''}))"
  by (cases "(True, e)" rule: defaultIsRetryable.cases)
     (auto simp: logger_debug_def retryableCodes_def retryableStatusCodes_def split: option.splits)




text \<open>
  Claim C2. Called on a \<^verbatim>\<open>RetryManager\<close>, the default predicate classifies as the claim
  says: status 401 is fatal, status 503 is retryable, and \<^verbatim>\<open>withRetry\<close> given that
  predicate surfaces the 401 failure after one call. \<^verbatim>\<open>withRetry\<close> called without a
  predicate takes the method unbound: whatever the failure, the predicate throws a
  \<^verbatim>\<open>TypeError\<close> inside the \<^verbatim>\<open>catch\<close> block, and that \<^verbatim>\<open>TypeError\<close>, not the failure
  of the operation, is what \<^verbatim>\<open>withRetry\<close> rejects with; a 503 is not retried.
\<close>

theorem default_predicate_loses_receiver:
  "defaultIsRetryable True (status_error 401) = Inr False \<and>
   withRetry default_options (flaky 1 (status_error 401) ''fixed'')
       (defaultIsRetryable True) 0 =
     \<lparr>outcome = Inl (Some (status_error 401)), invocations = 1, sleeps = [], final = 1\<rparr> \<and>
   withRetry_method default_options (flaky 1 (status_error 401) ''fixed'') None 0 =
     \<lparr>outcome = Inl (Some this_undefined), invocations = 1, sleeps = [], final = 1\<rparr> \<and>
   defaultIsRetryable True (status_error 503) = Inr True \<and>
   withRetry_method default_options (flaky 1 (status_error 503) ''fixed'') None 0 =
     \<lparr>outcome = Inl (Some this_undefined), invocations = 1, sleeps = [], final = 1\<rparr> \<and>
   this_undefined \<noteq> status_error 401 \<and> this_undefined \<noteq> status_error 503"
  by code_simp

section \<open>Properties of the code extraction\<close>

lemma dropWhile_snoc_keeps:
  assumes "\<not> P y"
  shows "\<exists>zs. dropWhile P (xs @ [y]) = zs @ [y]"
proof (cases "\<forall>x \<in> set xs. P x")
  case True
  with assms have "dropWhile P (xs @ [y]) = [] @ [y]" by (simp add: dropWhile_append)
  then show ?thesis by blast
next
  case False
  then have "dropWhile P (xs @ [y]) = dropWhile P xs @ [y]" by (auto simp: dropWhile_append)
  then show ?thesis by blast
qed

lemma dropWhile_rev_dropWhile:
  "dropWhile P (rev (dropWhile P (rev (dropWhile P xs)))) = rev (dropWhile P (rev (dropWhile P xs)))"
proof (cases "dropWhile P xs")
  case Nil
  show ?thesis unfolding Nil by simp
next
  case (Cons y ys)
  then have ny: "\<not> P y" by (metis hd_dropWhile list.sel(1) list.distinct(1))
  from dropWhile_snoc_keeps [where P = P and y = y and xs = "rev ys"] ny obtain zs where
    "dropWhile P (rev (y # ys)) = zs @ [y]" by auto
  then have "rev (dropWhile P (rev (y # ys))) = y # rev zs" by simp
  with ny show ?thesis unfolding Cons by simp
qed

lemma trim_idem: "trim (trim s) = trim s"
  by (simp add: trim_def dropWhile_rev_dropWhile)

lemma extractCode_trimmed: "trim (extractCode x) = extractCode x"
  by (simp add: extractCode_def Let_def trim_idem split: option.splits)

lemma lazy_body_iff: "lazy_body r = Some g \<longleftrightarrow> r = g @ fence"
proof (induction r arbitrary: g)
  case Nil
  then show ?case by (simp add: fence_def)
next
  case (Cons c cs)
  show ?case
  proof (cases "c # cs = fence")
    case True
    then show ?thesis by (auto simp: fence_def)
  next
    case False
    then show ?thesis using Cons
      by (cases g) (auto simp: fence_def)
  qed
qed

lemma newline_not_word: "\<not> is_word (CHR 0x0A)"
  by (simp add: is_word_def)

lemma lang_tag_Some:
  assumes "lang_tag r = Some r'"
  shows "\<exists>w. r = w @ [CHR 0x0A] @ r' \<and> (\<forall>c \<in> set w. is_word c)"
proof -
  from assms have d: "dropWhile is_word r = CHR 0x0A # r'"
    unfolding lang_tag_def by (auto split: list.splits if_splits)
  have "r = takeWhile is_word r @ dropWhile is_word r" by simp
  with d have "r = takeWhile is_word r @ [CHR 0x0A] @ r'" by simp
  moreover have "\<forall>c \<in> set (takeWhile is_word r). is_word c" by (auto dest: set_takeWhileD)
  ultimately show ?thesis by blast
qed

lemma match_here_Some:
  assumes "match_here s = Some g"
  shows "\<exists>tag. s = fence @ tag @ g @ fence \<and> tag_ok tag"
proof -
  from assms have sw: "startsWith s fence" by (auto simp: match_here_def split: if_splits)
  then have s: "s = fence @ drop 3 s"
    by (metis append_take_drop_id startsWith_def fence_def length_Cons list.size(3) numeral_3_eq_3)
  show ?thesis
  proof (cases "case lang_tag (drop 3 s) of None \<Rightarrow> None | Some r \<Rightarrow> lazy_body r")
    case None
    with assms sw have "lazy_body (drop 3 s) = Some g" by (simp add: match_here_def)
    then have "drop 3 s = g @ fence" by (simp add: lazy_body_iff)
    with s have "s = fence @ [] @ g @ fence" by simp
    then show ?thesis unfolding tag_ok_def by blast
  next
    case (Some g')
    with assms sw have "g' = g" by (simp add: match_here_def)
    with Some obtain r where r: "lang_tag (drop 3 s) = Some r" "lazy_body r = Some g"
      by (auto split: option.splits)
    from lang_tag_Some [OF r(1)] obtain w where
      w: "drop 3 s = w @ [CHR 0x0A] @ r" "\<forall>c \<in> set w. is_word c" by blast
    from r(2) have "r = g @ fence" by (simp add: lazy_body_iff)
    with s w have "s = fence @ (w @ [CHR 0x0A]) @ g @ fence" by simp
    moreover have "tag_ok (w @ [CHR 0x0A])" using w(2) unfolding tag_ok_def by blast
    ultimately show ?thesis by blast
  qed
qed

lemma match_here_complete: "match_here (fence @ mid @ fence) \<noteq> None"
proof -
  have "startsWith (fence @ mid @ fence) fence" by (simp add: startsWith_def)
  moreover have "drop 3 (fence @ mid @ fence) = mid @ fence" by (simp add: fence_def)
  moreover have "lazy_body (mid @ fence) = Some mid" by (simp add: lazy_body_iff)
  ultimately show ?thesis by (simp add: match_here_def split: option.splits)
qed

lemma codeBlockRegex_Some:
  "codeBlockRegex s = Some g \<Longrightarrow> \<exists>pre tag. s = pre @ fence @ tag @ g @ fence \<and> tag_ok tag"
proof (induction s)
  case Nil
  from match_here_Some [of "[]" g] Nil show ?case by (simp add: fence_def)
next
  case (Cons c cs)
  show ?case
  proof (cases "match_here (c # cs)")
    case None
    with Cons obtain pre tag where "cs = pre @ fence @ tag @ g @ fence" "tag_ok tag" by auto
    then have "c # cs = (c # pre) @ fence @ tag @ g @ fence" by simp
    with \<open>tag_ok tag\<close> show ?thesis by blast
  next
    case (Some g')
    with Cons.prems have "match_here (c # cs) = Some g" by simp
    from match_here_Some [OF this] obtain tag where
      "c # cs = [] @ fence @ tag @ g @ fence" "tag_ok tag" by auto
    then show ?thesis by blast
  qed
qed

lemma codeBlockRegex_complete: "codeBlockRegex (pre @ fence @ mid @ fence) \<noteq> None"
proof (induction pre)
  case Nil
  have "fence @ mid @ fence \<noteq> []" by (simp add: fence_def)
  then obtain c cs where cs: "fence @ mid @ fence = c # cs" by (cases "fence @ mid @ fence") auto
  with match_here_complete [of mid] show ?case by (auto split: option.splits)
next
  case (Cons a pre)
  then show ?case by (auto split: option.splits)
qed

lemma match_here_room:
  assumes "startsWith s fence" and "s = a @ fence" and "3 \<le> length a"
  shows "match_here s \<noteq> None"
proof -
  from assms(2,3) have "drop 3 s = drop 3 a @ fence" by simp
  then have "lazy_body (drop 3 s) = Some (drop 3 a)" by (simp add: lazy_body_iff)
  with assms(1) show ?thesis by (simp add: match_here_def split: option.splits)
qed

lemma codeBlockRegex_leftmost:
  "codeBlockRegex s = Some g \<Longrightarrow>
   \<exists>pre tag. s = pre @ fence @ tag @ g @ fence \<and> tag_ok tag \<and>
     (\<forall>i < length pre. \<not> startsWith (drop i s) fence)"
proof (induction s)
  case Nil
  from match_here_Some [of "[]" g] Nil show ?case by (simp add: fence_def)
next
  case (Cons c cs)
  show ?case
  proof (cases "match_here (c # cs)")
    case None
    with Cons obtain pre tag where p: "cs = pre @ fence @ tag @ g @ fence" "tag_ok tag"
      "\<forall>i < length pre. \<not> startsWith (drop i cs) fence" by auto
    from p(1) have eq: "c # cs = (c # pre) @ fence @ tag @ g @ fence" by simp
    have first: "\<not> startsWith (c # cs) fence"
    proof
      assume sw: "startsWith (c # cs) fence"
      have "c # cs = ((c # pre) @ fence @ tag @ g) @ fence" using eq by simp
      moreover have "3 \<le> length ((c # pre) @ fence @ tag @ g)" by (simp add: fence_def)
      ultimately have "match_here (c # cs) \<noteq> None" using sw by (rule match_here_room [rotated])
      with None show False by simp
    qed
    have "\<not> startsWith (drop i (c # cs)) fence" if "i < length (c # pre)" for i
    proof (cases i)
      case 0
      with first show ?thesis by simp
    next
      case (Suc j)
      with that p(3) show ?thesis by simp
    qed
    with eq p(2) show ?thesis by blast
  next
    case (Some g')
    with Cons.prems have "match_here (c # cs) = Some g" by simp
    from match_here_Some [OF this] obtain tag where
      "c # cs = [] @ fence @ tag @ g @ fence" "tag_ok tag" by auto
    then show ?thesis by (metis list.size(3) not_less_zero)
  qed
qed

lemma match_here_fence: "match_here s = Some g \<Longrightarrow> startsWith s fence"
  by (auto simp: match_here_def split: if_splits)

lemma codeBlockRegex_contains_fence: "codeBlockRegex s = Some g \<Longrightarrow> contains_fence s"
proof (induction s)
  case Nil
  then show ?case by (simp add: match_here_def startsWith_def fence_def)
next
  case (Cons c cs)
  then show ?case by (auto split: option.splits dest: match_here_fence)
qed

lemma extractCode_no_match: "codeBlockRegex (trim y) = None \<Longrightarrow> extractCode y = trim y"
  by (simp add: extractCode_def)

text \<open>
  Claim C5, as the code has it. When the expression finds no block in the trimmed text,
  \<open>extractCode\<close> returns the trimmed text. When it finds one, the trimmed text is some
  prefix in which no fence starts, an opening fence (so the first one), an optional
  language tag (word characters and a line feed), the group, and a closing fence that ends
  the text; \<open>extractCode\<close> returns the trimmed group, or the trimmed text when the group is
  empty. A trimmed text that ends in a fence with
  another fence before it always has such a block. Applying \<open>extractCode\<close> to its own
  result changes nothing whenever that result holds no triple backtick.
\<close>

theorem extractCode_idempotent_without_fence:
  "(codeBlockRegex (trim x) = None \<longrightarrow> extractCode x = trim x) \<and>
   (codeBlockRegex (trim x) = Some g \<longrightarrow>
      (\<exists>pre tag. trim x = pre @ fence @ tag @ g @ fence \<and> tag_ok tag \<and>
         (\<forall>i < length pre. \<not> startsWith (drop i (trim x)) fence)) \<and>
      extractCode x = (if g \<noteq> [] then trim g else trim x)) \<and>
   (trim x = pre @ fence @ mid @ fence \<longrightarrow> codeBlockRegex (trim x) \<noteq> None) \<and>
   (\<not> contains_fence (extractCode x) \<longrightarrow> extractCode (extractCode x) = extractCode x)"
proof -
  have a: "extractCode x = trim x" if "codeBlockRegex (trim x) = None"
    using that by (rule extractCode_no_match)
  have b: "(\<exists>pre tag. trim x = pre @ fence @ tag @ g @ fence \<and> tag_ok tag \<and>
         (\<forall>i < length pre. \<not> startsWith (drop i (trim x)) fence)) \<and>
      extractCode x = (if g \<noteq> [] then trim g else trim x)"
    if "codeBlockRegex (trim x) = Some g"
    using that codeBlockRegex_leftmost [OF that] by (simp add: extractCode_def)
  have c: "codeBlockRegex (trim x) \<noteq> None" if "trim x = pre @ fence @ mid @ fence"
    using codeBlockRegex_complete [of pre mid] that by simp
  have d: "extractCode (extractCode x) = extractCode x" if "\<not> contains_fence (extractCode x)"
  proof -
    from that have "codeBlockRegex (extractCode x) = None"
      using codeBlockRegex_contains_fence by (cases "codeBlockRegex (extractCode x)") auto
    then have "codeBlockRegex (trim (extractCode x)) = None"
      by (simp only: extractCode_trimmed)
    then have "extractCode (extractCode x) = trim (extractCode x)"
      by (rule extractCode_no_match)
    then show ?thesis by (simp only: extractCode_trimmed)
  qed
  from a b c d show ?thesis by blast
qed

text \<open>
  A reply with a sentence, a fenced block with a language tag and trailing blanks: the code
  inside the block is extracted, and extracting again returns it unchanged.
\<close>

theorem extractCode_idempotent_without_fence_witness:
  "codeBlockRegex (trim reply) = Some (''x = 1'' @ [CHR 0x0A]) \<and>
   \<not> contains_fence (extractCode reply) \<and>
   extractCode reply = ''x = 1'' \<and>
   extractCode (extractCode reply) = extractCode reply \<and>
   codeBlockRegex (trim ''x = 1'') = None \<and>
   extractCode ''x = 1'' = trim ''x = 1''"
proof -
  have g: "codeBlockRegex (trim reply) = Some (''x = 1'' @ [CHR 0x0A])" by code_simp
  have n: "\<not> contains_fence (extractCode reply)" by code_simp
  have e: "extractCode reply = ''x = 1''" by code_simp
  have m: "codeBlockRegex (trim ''x = 1'') = None" by code_simp
  from extractCode_idempotent_without_fence [of reply "''x = 1'' @ [CHR 0x0A]"] n
  have i: "extractCode (extractCode reply) = extractCode reply" by blast
  from extractCode_idempotent_without_fence [of "''x = 1''"] m
  have t: "extractCode ''x = 1'' = trim ''x = 1''" by blast
  from g n e i m t show ?thesis by blast
qed

text \<open>
  Claim C5 as worded says that extracting twice is extracting once, for every string. For
  six backticks, the letter a and six backticks, the match starts at the first fence and ends
  at the last: the first extraction returns the letter between two fences, the second
  returns the letter alone.
\<close>

theorem extractCode_not_idempotent_counterexample:
  "extractCode (fence @ fence @ ''a'' @ fence @ fence) = fence @ ''a'' @ fence \<and>
   extractCode (extractCode (fence @ fence @ ''a'' @ fence @ fence)) = ''a'' \<and>
   extractCode (extractCode (fence @ fence @ ''a'' @ fence @ fence))
     \<noteq> extractCode (fence @ fence @ ''a'' @ fence @ fence)"
  by code_simp

section \<open>Properties of the fix command\<close>

lemma getCorrection_never_rejects:
  "fst (getCorrectionFromOllama cfg tr snippet lang) \<noteq> Inl e"
  by (simp add: getCorrectionFromOllama_def Let_def split: sum.splits option.splits)

lemma getCorrection_failure:
  "tr (Post (ollamaApiUrl cfg) (modelName cfg) (build_prompt cfg lang snippet)) = Inl e \<Longrightarrow>
   fst (getCorrectionFromOllama cfg tr snippet lang) = Inr None"
  by (simp add: getCorrectionFromOllama_def Let_def)

lemma getCorrection_shows:
  "ShowInformation m \<notin> set (snd (getCorrectionFromOllama cfg tr snippet lang))"
  by (auto simp: getCorrectionFromOllama_def Let_def debug_log_def
      split: sum.splits option.splits prod.splits)

lemma fix_applied_only:
  assumes "applied (fixSelectedCode cfg env ui0) = Some (d, rng, code)"
  shows "\<exists>editor currentEditor.
           activeTextEditor ui0 = Some editor \<and>
           fst (selection editor) \<noteq> snd (selection editor) \<and>
           \<not> cancelled_before env \<and> \<not> cancelled_after env \<and>
           correction cfg env ui0 editor = Inr (Some code) \<and>
           code \<noteq> selectedText ui0 editor \<and>
           activeTextEditor (later env) = Some currentEditor \<and>
           document currentEditor = document editor \<and>
           selection currentEditor = selection editor \<and>
           edit_settles env = EditApplied \<and>
           d = document editor \<and> rng = selection editor"
  using assms
  by (simp add: fixSelectedCode_def correction_def selectedText_def Let_def
      split: option.splits if_splits prod.splits sum.splits edit_result.splits)

lemma fix_failure_untouched:
  assumes "activeTextEditor ui0 = Some editor"
    and "correction cfg env ui0 editor = Inr None"
  shows "applied (fixSelectedCode cfg env ui0) = None"
  using assms
  by (auto simp: fixSelectedCode_def correction_def selectedText_def Let_def
      split: option.splits if_splits prod.splits sum.splits edit_result.splits)

lemma identical_code_not_applied:
  assumes "activeTextEditor ui0 = Some editor"
    and "fst (selection editor) \<noteq> snd (selection editor)"
    and "correction cfg env ui0 editor = Inr (Some (selectedText ui0 editor))"
  shows "applied (fixSelectedCode cfg env ui0) = None"
    and "\<not> cancelled_before env \<and> \<not> cancelled_after env \<longrightarrow>
           ShowInformation no_changes_message \<in> set (shown (fixSelectedCode cfg env ui0))"
  using assms
  by (auto simp: fixSelectedCode_def correction_def selectedText_def Let_def
      split: option.splits if_splits prod.splits sum.splits edit_result.splits)


lemma text_after_untouched:
  "applied out = None \<Longrightarrow> text_after env out d = texts (later env) d"
  by (simp add: text_after_def)

text \<open>
  Claim C9, as the code has it. When the command applies an edit, there was an active
  editor with a non-empty selection at the start, the request was not cancelled, the
  correction was obtained and differs from the selected text, and when the request returned
  there was an active editor showing the same document with a selection equal to the one
  captured at the start (the editor itself is not compared); the edit replaces exactly the
  captured selection by the whole correction and leaves every other document as it is. When
  no edit is applied every document is as the surroundings left it. When the request fails,
  the correction is \<^verbatim>\<open>null\<close> and no edit is applied.
\<close>

theorem fix_applies_only_when_confirmed:
  "(applied (fixSelectedCode cfg env ui0) = Some (d, rng, code) \<longrightarrow>
      (\<exists>editor currentEditor.
          activeTextEditor ui0 = Some editor \<and>
          fst (selection editor) \<noteq> snd (selection editor) \<and>
          \<not> cancelled_before env \<and> \<not> cancelled_after env \<and>
          correction cfg env ui0 editor = Inr (Some code) \<and>
          code \<noteq> selectedText ui0 editor \<and>
          activeTextEditor (later env) = Some currentEditor \<and>
          document currentEditor = document editor \<and>
          selection currentEditor = selection editor \<and>
          edit_settles env = EditApplied \<and>
          d = document editor \<and> rng = selection editor) \<and>
      text_after env (fixSelectedCode cfg env ui0) d = replace_range (texts (later env) d) rng code \<and>
      (d' \<noteq> d \<longrightarrow> text_after env (fixSelectedCode cfg env ui0) d' = texts (later env) d')) \<and>
   (applied (fixSelectedCode cfg env ui0) = None \<longrightarrow>
      text_after env (fixSelectedCode cfg env ui0) d' = texts (later env) d') \<and>
   (activeTextEditor ui0 = Some editor \<and>
    transport env (Post (ollamaApiUrl cfg) (modelName cfg)
                     (build_prompt cfg (languageId ui0 (document editor)) (selectedText ui0 editor)))
      = Inl e \<longrightarrow>
      correction cfg env ui0 editor = Inr None \<and>
      applied (fixSelectedCode cfg env ui0) = None)"
proof -
  let ?out = "fixSelectedCode cfg env ui0"
  have a: "\<exists>editor currentEditor.
          activeTextEditor ui0 = Some editor \<and>
          fst (selection editor) \<noteq> snd (selection editor) \<and>
          \<not> cancelled_before env \<and> \<not> cancelled_after env \<and>
          correction cfg env ui0 editor = Inr (Some code) \<and>
          code \<noteq> selectedText ui0 editor \<and>
          activeTextEditor (later env) = Some currentEditor \<and>
          document currentEditor = document editor \<and>
          selection currentEditor = selection editor \<and>
          edit_settles env = EditApplied \<and>
          d = document editor \<and> rng = selection editor"
    if "applied ?out = Some (d, rng, code)"
    using that by (rule fix_applied_only)
  have b: "text_after env ?out d = replace_range (texts (later env) d) rng code \<and>
      (d' \<noteq> d \<longrightarrow> text_after env ?out d' = texts (later env) d')"
    if "applied ?out = Some (d, rng, code)"
    using that by (simp add: text_after_def)
  have c: "text_after env ?out d' = texts (later env) d'" if "applied ?out = None"
    using that by (rule text_after_untouched)
  have f: "correction cfg env ui0 editor = Inr None \<and> applied ?out = None"
    if "activeTextEditor ui0 = Some editor"
      "transport env (Post (ollamaApiUrl cfg) (modelName cfg)
                     (build_prompt cfg (languageId ui0 (document editor)) (selectedText ui0 editor)))
        = Inl e"
  proof -
    from that(2) have "correction cfg env ui0 editor = Inr None"
      unfolding correction_def by (rule getCorrection_failure)
    with that(1) show ?thesis by (simp add: fix_failure_untouched)
  qed
  from a b c f show ?thesis by blast
qed

text \<open>
  The selection \<open>x == 1\<close> of a document \<open>x == 1; y\<close>, corrected to \<open>x = 1\<close>: the edit is
  applied and the document reads \<open>x = 1; y\<close>. With a transport that refuses the connection
  no edit is applied.
\<close>

theorem fix_applies_only_when_confirmed_witness:
  "applied (fixSelectedCode example_config (example_env ''x = 1'' False 1) (example_ui 1)) =
     Some (0, (0, 6), ''x = 1'') \<and>
   text_after (example_env ''x = 1'' False 1)
     (fixSelectedCode example_config (example_env ''x = 1'' False 1) (example_ui 1)) 0 = ''x = 1; y'' \<and>
   correction example_config (example_env ''x = 1'' False 1) (example_ui 1) (example_editor 1) =
     Inr (Some ''x = 1'') \<and>
   applied (fixSelectedCode example_config
              ((example_env ''x = 1'' False 1)\<lparr>transport := fails_with refused\<rparr>) (example_ui 1)) = None"
proof -
  let ?env = "example_env ''x = 1'' False 1"
  let ?bad = "?env\<lparr>transport := fails_with refused\<rparr>"
  let ?out = "fixSelectedCode example_config ?env (example_ui 1)"
  have ap: "applied ?out = Some (0, (0, 6), ''x = 1'')" by code_simp
  have ed: "activeTextEditor (example_ui 1) = Some (example_editor 1)" by code_simp
  have later: "replace_range (texts (later ?env) 0) (0, 6) ''x = 1'' = ''x = 1; y''" by code_simp
  have tr: "transport ?bad (Post (ollamaApiUrl example_config) (modelName example_config)
                     (build_prompt example_config (languageId (example_ui 1) (document (example_editor 1)))
                        (selectedText (example_ui 1) (example_editor 1))))
              = Inl refused"
    by (simp add: fails_with_def)
  note t = fix_applies_only_when_confirmed [where cfg = example_config and env = ?env
      and ?ui0.0 = "example_ui 1" and d = 0 and rng = "(0, 6)" and code = "''x = 1''"]
  from t ap obtain editor where
    e: "activeTextEditor (example_ui 1) = Some editor"
      "correction example_config ?env (example_ui 1) editor = Inr (Some ''x = 1'')"
    and ta: "text_after ?env ?out 0 = replace_range (texts (later ?env) 0) (0, 6) ''x = 1''"
    by blast
  from e ed have c: "correction example_config ?env (example_ui 1) (example_editor 1) = Inr (Some ''x = 1'')"
    by simp
  from fix_applies_only_when_confirmed [where cfg = example_config and env = ?bad
      and ?ui0.0 = "example_ui 1" and editor = "example_editor 1" and e = refused] ed tr
  have "applied (fixSelectedCode example_config ?bad (example_ui 1)) = None" by blast
  with ap ta later c show ?thesis by simp
qed

text \<open>
  Claim C9 as worded requires the same active editor. Here the command starts in editor 1
  and, when the request returns, the active editor is editor 2, which shows the same
  document with an equal selection: the edit is applied.
\<close>

theorem fix_other_editor_counterexample:
  "activeTextEditor (example_ui 1) = Some (example_editor 1) \<and>
   activeTextEditor (later (example_env ''x = 1'' False 2)) = Some (example_editor 2) \<and>
   editor_id (example_editor 2) \<noteq> editor_id (example_editor 1) \<and>
   applied (fixSelectedCode example_config (example_env ''x = 1'' False 2) (example_ui 1)) =
     Some (0, (0, 6), ''x = 1'')"
  by code_simp

text \<open>
  Claim C10, as the code has it. When the correction obtained from the model is identical
  to the selected text, the command applies no edit and every document is as the
  surroundings left it; the user is told that no changes are suggested exactly when the
  request was not cancelled (the cancellation check comes before the comparison).
\<close>

theorem fix_identical_no_edit:
  "activeTextEditor ui0 = Some editor \<and> fst (selection editor) \<noteq> snd (selection editor) \<and>
   correction cfg env ui0 editor = Inr (Some (selectedText ui0 editor)) \<longrightarrow>
     applied (fixSelectedCode cfg env ui0) = None \<and>
     text_after env (fixSelectedCode cfg env ui0) d = texts (later env) d \<and>
     (ShowInformation no_changes_message \<in> set (shown (fixSelectedCode cfg env ui0)) \<longleftrightarrow>
        \<not> cancelled_before env \<and> \<not> cancelled_after env)"
proof (intro impI, elim conjE)
  assume ed: "activeTextEditor ui0 = Some editor"
    and sel: "fst (selection editor) \<noteq> snd (selection editor)"
    and same: "correction cfg env ui0 editor = Inr (Some (selectedText ui0 editor))"
  let ?out = "fixSelectedCode cfg env ui0"
  let ?gc = "getCorrectionFromOllama cfg (transport env) (selectedText ui0 editor)
               (languageId ui0 (document editor))"
  from identical_code_not_applied [OF ed sel same] have none: "applied ?out = None"
    and shown: "\<not> cancelled_before env \<and> \<not> cancelled_after env \<longrightarrow>
           ShowInformation no_changes_message \<in> set (shown ?out)" by blast+
  have quiet: "ShowInformation no_changes_message \<notin> set (snd ?gc)" by (rule getCorrection_shows)
  have hidden: "ShowInformation no_changes_message \<notin> set (shown ?out)"
    if "cancelled_before env \<or> cancelled_after env"
    using that ed sel quiet
    by (auto simp: fixSelectedCode_def Let_def selectedText_def cancellation_handler_def
        no_changes_message_def split: prod.splits)
  from none shown hidden text_after_untouched [OF none, of env d]
  show "applied ?out = None \<and> text_after env ?out d = texts (later env) d \<and>
     (ShowInformation no_changes_message \<in> set (shown ?out) \<longleftrightarrow>
        \<not> cancelled_before env \<and> \<not> cancelled_after env)"
    by blast
qed

text \<open>
  The model returns the selected text \<open>x == 1\<close> itself: no edit, and the message is shown.
\<close>

theorem fix_identical_no_edit_witness:
  "correction example_config (example_env ''x == 1'' False 1) (example_ui 1) (example_editor 1) =
     Inr (Some (selectedText (example_ui 1) (example_editor 1))) \<and>
   applied (fixSelectedCode example_config (example_env ''x == 1'' False 1) (example_ui 1)) = None \<and>
   ShowInformation no_changes_message
     \<in> set (shown (fixSelectedCode example_config (example_env ''x == 1'' False 1) (example_ui 1)))"
proof -
  let ?env = "example_env ''x == 1'' False 1"
  have ed: "activeTextEditor (example_ui 1) = Some (example_editor 1)" by code_simp
  have sel: "fst (selection (example_editor 1)) \<noteq> snd (selection (example_editor 1))" by code_simp
  have same: "correction example_config ?env (example_ui 1) (example_editor 1) =
     Inr (Some (selectedText (example_ui 1) (example_editor 1)))" by code_simp
  have nc: "\<not> cancelled_before ?env \<and> \<not> cancelled_after ?env" by code_simp
  from fix_identical_no_edit [of "example_ui 1" "example_editor 1" example_config ?env 0]
    ed sel same nc
  show ?thesis by blast
qed

text \<open>
  Claim C10 as worded says that the user is informed whenever the correction is identical.
  Here the correction is identical and the user cancelled while the request was running:
  the command returns at the cancellation check and the message is not shown.
\<close>

theorem fix_identical_cancelled_counterexample:
  "correction example_config (example_env ''x == 1'' True 1) (example_ui 1) (example_editor 1) =
     Inr (Some (selectedText (example_ui 1) (example_editor 1))) \<and>
   shown (fixSelectedCode example_config (example_env ''x == 1'' True 1) (example_ui 1)) =
     [ProgressReport 0 ''Sending code to local Ollama AI...'',
      ConsoleLog ''User cancelled the Ollama request.'',
      ShowInformation ''Ollama code correction cancelled.''] \<and>
   ShowInformation no_changes_message
     \<notin> set (shown (fixSelectedCode example_config (example_env ''x == 1'' True 1) (example_ui 1)))"
  by code_simp

section \<open>Properties of the chat provider\<close>

lemma withRetry_axios:
  "withRetry_method opts (axios env req) None st =
     \<lparr>outcome = (case server env req (length (sent st)) of
                   Inl e \<Rightarrow> Inl (Some this_undefined) | Inr v \<Rightarrow> Inr v),
      invocations = 1, sleeps = [], final = st\<lparr>sent := sent st @ [req]\<rparr>\<rparr>"
proof (cases "server env req (length (sent st))")
  case (Inl e)
  then have "axios env req st = (Inl e, st\<lparr>sent := sent st @ [req]\<rparr>)"
    by (simp add: axios_def)
  from withRetry_unbound_default [where operation = "axios env req" and s = st and opts = opts, OF this] Inl
  show ?thesis by simp
next
  case (Inr v)
  then have "axios env req st = (Inr v, st\<lparr>sent := sent st @ [req]\<rparr>)"
    by (simp add: axios_def)
  then have "attempts opts (axios env req) (defaultIsRetryable False) 1 (retryDelay opts) None st =
      \<lparr>outcome = Inr v, invocations = 1, sleeps = [], final = st\<lparr>sent := sent st @ [req]\<rparr>\<rparr>"
    by (subst attempts.simps) simp
  with Inr show ?thesis by (simp add: withRetry_method_def withRetry_def)
qed

lemma resolve_base_facts [simp]:
  "sent (snd (resolve_base env st)) = sent st"
  "config (snd (resolve_base env st)) = config st"
  "prompts (snd (resolve_base env st)) = prompts st"
  "reentries (snd (resolve_base env st)) = reentries st"
  by (simp_all add: resolve_base_def Let_def log_def)

lemma resolve_base_url:
  "fst (resolve_base env st) =
     (if url_parses env (ollamaApiUrl (config st))
      then strip_trailing_slashes (ollamaApiUrl (config st)) else default_base)"
  by (simp add: resolve_base_def Let_def)

lemma check_model_sent:
  "sent (snd (check_model env this base model st)) = sent st @ [Get (base @ ''/api/tags'')]"
  by (simp add: check_model_def withRetry_axios Let_def log_def
      split: sum.splits choice.splits option.splits)

lemma check_model_url:
  "ollamaApiUrl (config (snd (check_model env this base model st))) = ollamaApiUrl (config st)"
  by (simp add: check_model_def withRetry_axios Let_def log_def
      split: sum.splits choice.splits option.splits)

lemma check_model_reentries:
  "reentries (snd (check_model env this base model st)) = reentries st"
  by (simp add: check_model_def withRetry_axios Let_def log_def
      split: sum.splits choice.splits option.splits)

lemma generate_sent:
  "sent (snd (generate env this cfg base model message st)) =
     (if http_scheme (base @ ''/api/chat'')
      then sent st @ [Post (base @ ''/api/chat'') model message] else sent st)"
  by (simp add: generate_def withRetry_axios Let_def log_def
      split: sum.splits option.splits)

lemma generate_resolves:
  "\<exists>text. fst (generate env this cfg base model message st) = Inr text"
  by (simp add: generate_def withRetry_axios Let_def log_def
      split: sum.splits option.splits)

lemma generate_config_reentries [simp]:
  "config (snd (generate env this cfg base model message st)) = config st"
  "reentries (snd (generate env this cfg base model message st)) = reentries st"
  by (simp_all add: generate_def withRetry_axios Let_def log_def
      split: sum.splits option.splits)

lemma generate_bad_scheme:
  "\<not> http_scheme (base @ ''/api/chat'') \<Longrightarrow>
   fst (generate env this cfg base model message st) =
     Inr (chat_error_message (Some (Error (''Invalid URL protocol: '' @ base @ ''/api/chat''))))"
  by (simp add: generate_def Let_def)

lemma check_model_failure:
  "server env (Get (base @ ''/api/tags'')) (length (sent st)) = Inl e \<Longrightarrow>
   check_model env this base model st =
     (Proceed,
      log [ConsoleError check_failed,
           ShowWarning (''Failed to check models: '' @ err_message (Some this_undefined))]
        (st\<lparr>sent := sent st @ [Get (base @ ''/api/tags'')]\<rparr>))"
  by (simp add: check_model_def withRetry_axios Let_def this_undefined_def)

lemma getOllamaResponse_never_rejects:
  "getOllamaResponse fuel env this message st = Some (r, st') \<Longrightarrow> \<exists>text. r = Inr text"
proof (induction fuel arbitrary: st)
  case 0
  then show ?case by simp
next
  case (Suc fuel)
  obtain base st1 where rb: "resolve_base env st = (base, st1)" by (cases "resolve_base env st")
  obtain c st2 where cm: "check_model env this base (modelName (config st)) st1 = (c, st2)"
    by (cases "check_model env this base (modelName (config st)) st1")
  show ?case
  proof (cases c)
    case Proceed
    with Suc.prems rb cm generate_resolves [of env "this" "config st" base "modelName (config st)" message st2]
    show ?thesis by (auto simp: Let_def)
  next
    case (Answer answer)
    with Suc.prems rb cm show ?thesis by (auto simp: Let_def)
  next
    case Again
    with Suc.prems rb cm have
      "getOllamaResponse fuel env this message (st2\<lparr>reentries := Suc (reentries st2)\<rparr>) = Some (r, st')"
      by (simp add: Let_def)
    then show ?thesis by (rule Suc.IH)
  qed
qed

lemma generation_outcome:
  "outcome (generation env this url model message st) =
     (case server env (Post url model message) (length (sent st)) of
        Inl e \<Rightarrow> Inl (Some this_undefined) | Inr v \<Rightarrow> Inr v)"
  by (simp add: generation_def withRetry_axios)

lemma catalog_outcome:
  "outcome (catalog env this base st) =
     (case server env (Get (base @ ''/api/tags'')) (length (sent st)) of
        Inl e \<Rightarrow> Inl (Some this_undefined) | Inr v \<Rightarrow> Inr v)"
  by (simp add: catalog_def withRetry_axios)

lemma generate_result:
  "http_scheme (base @ ''/api/chat'') \<Longrightarrow>
   fst (generate env this cfg base model message st) =
     (case outcome (generation env this (base @ ''/api/chat'') model message st) of
        Inl e \<Rightarrow> Inr (chat_error_message e)
      | Inr response \<Rightarrow> Inr (chat_text response))"
  by (simp add: generate_def generation_def withRetry_axios Let_def log_def split: sum.splits)

lemma generate_logs_failure:
  "http_scheme (base @ ''/api/chat'') \<Longrightarrow>
   outcome (generation env this (base @ ''/api/chat'') model message st) = Inl e \<Longrightarrow>
   ConsoleError (chat_error_message e) \<in> set (events (snd (generate env this cfg base model message st)))"
  by (simp add: generate_def generation_def withRetry_axios Let_def log_def split: sum.splits)

lemma set_retry_fields [simp]:
  "sent (set_retry n d m st) = sent st"
  "prompts (set_retry n d m st) = prompts st"
  "events (set_retry n d m st) = events st"
  "reentries (set_retry n d m st) = reentries st"
  "ollamaApiUrl (config (set_retry n d m st)) = ollamaApiUrl (config st)"
  "modelName (config (set_retry n d m st)) = modelName (config st)"
  "logLevel (config (set_retry n d m st)) = logLevel (config st)"
  by (simp_all add: set_retry_def)







lemma getOllamaResponse_Suc:
  "getOllamaResponse (Suc fuel) env this message st =
     (case check_model env this (fst (resolve_base env st)) (modelName (config st))
             (snd (resolve_base env st)) of
        (Answer answer, st2) \<Rightarrow> Some (Inr answer, st2)
      | (Again, st2) \<Rightarrow>
          getOllamaResponse fuel env this message (st2\<lparr>reentries := Suc (reentries st2)\<rparr>)
      | (Proceed, st2) \<Rightarrow>
          Some (generate env this (config st) (fst (resolve_base env st)) (modelName (config st))
                  message st2))"
  by (cases "resolve_base env st") (simp add: Let_def split: prod.splits check.splits)

declare getOllamaResponse.simps(2) [simp del]

lemma getOllamaResponse_sent_grows:
  "getOllamaResponse fuel env this message st = Some (r, st') \<Longrightarrow> \<exists>rest. sent st' = sent st @ rest"
proof (induction fuel arbitrary: st)
  case 0
  then show ?case by simp
next
  case (Suc fuel)
  let ?base = "fst (resolve_base env st)"
  obtain c st2 where cm:
    "check_model env this ?base (modelName (config st)) (snd (resolve_base env st)) = (c, st2)"
    by (cases "check_model env this ?base (modelName (config st)) (snd (resolve_base env st))")
  from check_model_sent [of env "this" ?base "modelName (config st)" "snd (resolve_base env st)"] cm
  have s2: "sent st2 = sent st @ [Get (?base @ ''/api/tags'')]" by simp
  show ?case
  proof (cases c)
    case Proceed
    with Suc.prems cm have "st' = snd (generate env this (config st) ?base (modelName (config st)) message st2)"
      by (auto simp: getOllamaResponse_Suc)
    with s2 show ?thesis by (simp add: generate_sent)
  next
    case (Answer answer)
    with Suc.prems cm have "st' = st2" by (simp add: getOllamaResponse_Suc)
    with s2 show ?thesis by simp
  next
    case Again
    with Suc.prems cm have
      "getOllamaResponse fuel env this message (st2\<lparr>reentries := Suc (reentries st2)\<rparr>) = Some (r, st')"
      by (simp add: getOllamaResponse_Suc)
    from Suc.IH [OF this] s2 show ?thesis by auto
  qed
qed

lemma getOllamaResponse_first_request:
  assumes "getOllamaResponse (Suc fuel) env this message st = Some (r, st')"
  shows "\<exists>rest. sent st' = sent st @ Get (fst (resolve_base env st) @ ''/api/tags'') # rest"
proof -
  let ?base = "fst (resolve_base env st)"
  obtain c st2 where cm:
    "check_model env this ?base (modelName (config st)) (snd (resolve_base env st)) = (c, st2)"
    by (cases "check_model env this ?base (modelName (config st)) (snd (resolve_base env st))")
  from check_model_sent [of env "this" ?base "modelName (config st)" "snd (resolve_base env st)"] cm
  have s2: "sent st2 = sent st @ [Get (?base @ ''/api/tags'')]" by simp
  show ?thesis
  proof (cases c)
    case Proceed
    with assms cm have "st' = snd (generate env this (config st) ?base (modelName (config st)) message st2)"
      by (auto simp: getOllamaResponse_Suc)
    with s2 show ?thesis by (simp add: generate_sent)
  next
    case (Answer answer)
    with assms cm have "st' = st2" by (simp add: getOllamaResponse_Suc)
    with s2 show ?thesis by simp
  next
    case Again
    with assms cm have
      "getOllamaResponse fuel env this message (st2\<lparr>reentries := Suc (reentries st2)\<rparr>) = Some (r, st')"
      by (simp add: getOllamaResponse_Suc)
    from getOllamaResponse_sent_grows [OF this] s2 show ?thesis by auto
  qed
qed

lemma getOllamaResponse_no_post:
  "\<not> http_scheme (fst (resolve_base env st) @ ''/api/chat'') \<Longrightarrow>
   getOllamaResponse fuel env this message st = Some (r, st') \<Longrightarrow>
   filter is_Post (sent st') = filter is_Post (sent st)"
proof (induction fuel arbitrary: st)
  case 0
  then show ?case by simp
next
  case (Suc fuel)
  let ?base = "fst (resolve_base env st)"
  obtain c st2 where cm:
    "check_model env this ?base (modelName (config st)) (snd (resolve_base env st)) = (c, st2)"
    by (cases "check_model env this ?base (modelName (config st)) (snd (resolve_base env st))")
  from check_model_sent [of env "this" ?base "modelName (config st)" "snd (resolve_base env st)"] cm
  have s2: "sent st2 = sent st @ [Get (?base @ ''/api/tags'')]" by simp
  from check_model_url [of env "this" ?base "modelName (config st)" "snd (resolve_base env st)"] cm
  have u2: "ollamaApiUrl (config st2) = ollamaApiUrl (config st)" by simp
  show ?case
  proof (cases c)
    case Proceed
    with Suc.prems(2) cm have "st' = snd (generate env this (config st) ?base (modelName (config st)) message st2)"
      by (auto simp: getOllamaResponse_Suc)
    with s2 Suc.prems(1) show ?thesis by (simp add: generate_sent)
  next
    case (Answer answer)
    with Suc.prems(2) cm have "st' = st2" by (simp add: getOllamaResponse_Suc)
    with s2 show ?thesis by simp
  next
    case Again
    let ?st = "st2\<lparr>reentries := Suc (reentries st2)\<rparr>"
    from Again Suc.prems(2) cm have run: "getOllamaResponse fuel env this message ?st = Some (r, st')"
      by (simp add: getOllamaResponse_Suc)
    have "fst (resolve_base env ?st) = ?base" using u2 by (simp add: resolve_base_url)
    with Suc.prems(1) have "\<not> http_scheme (fst (resolve_base env ?st) @ ''/api/chat'')" by simp
    from Suc.IH [OF this run] s2 show ?thesis by simp
  qed
qed

text \<open>
  Claim C3, as the code has it. Whatever the base URL, a call that returns has dispatched
  the catalog request first. A base URL that \<^verbatim>\<open>new URL\<close> rejects is replaced by
  \<open>http://localhost:11434\<close>, and the call goes on against it. A base URL that is accepted
  but does not give an address starting with \<open>http://\<close> or \<open>https://\<close> leads to no generation
  request at all; when the availability check lets the call go on, the call returns the
  text of the error \<open>Invalid URL protocol\<close>.
\<close>

theorem base_url_resolution:
  "getOllamaResponse (Suc fuel) env this message st = Some (result, st') \<longrightarrow>
     (\<exists>rest. sent st' = sent st @ Get (fst (resolve_base env st) @ ''/api/tags'') # rest) \<and>
     (\<not> url_parses env (ollamaApiUrl (config st)) \<longrightarrow> fst (resolve_base env st) = default_base) \<and>
     (url_parses env (ollamaApiUrl (config st)) \<longrightarrow>
        fst (resolve_base env st) = strip_trailing_slashes (ollamaApiUrl (config st))) \<and>
     (\<not> http_scheme (fst (resolve_base env st) @ ''/api/chat'') \<longrightarrow>
        filter is_Post (sent st') = filter is_Post (sent st) \<and>
        (fst (check_model env this (fst (resolve_base env st)) (modelName (config st))
                (snd (resolve_base env st))) = Proceed \<longrightarrow>
           result = Inr (chat_error_message
                      (Some (Error (''Invalid URL protocol: '' @ fst (resolve_base env st)
                                    @ ''/api/chat''))))))"
proof
  assume run: "getOllamaResponse (Suc fuel) env this message st = Some (result, st')"
  let ?base = "fst (resolve_base env st)"
  have a: "\<exists>rest. sent st' = sent st @ Get (?base @ ''/api/tags'') # rest"
    using run by (rule getOllamaResponse_first_request)
  have b: "\<not> url_parses env (ollamaApiUrl (config st)) \<longrightarrow> ?base = default_base"
    and c: "url_parses env (ollamaApiUrl (config st)) \<longrightarrow>
        ?base = strip_trailing_slashes (ollamaApiUrl (config st))"
    by (simp_all add: resolve_base_url)
  have d: "filter is_Post (sent st') = filter is_Post (sent st)"
    if "\<not> http_scheme (?base @ ''/api/chat'')"
    using that run by (rule getOllamaResponse_no_post)
  have e: "result = Inr (chat_error_message
                      (Some (Error (''Invalid URL protocol: '' @ ?base @ ''/api/chat''))))"
    if h1: "\<not> http_scheme (?base @ ''/api/chat'')"
      and h2: "fst (check_model env this ?base (modelName (config st)) (snd (resolve_base env st))) = Proceed"
  proof -
    obtain st2 where
      "check_model env this ?base (modelName (config st)) (snd (resolve_base env st)) = (Proceed, st2)"
      using h2
      by (cases "check_model env this ?base (modelName (config st)) (snd (resolve_base env st))") auto
    with run have "result = fst (generate env this (config st) ?base (modelName (config st)) message st2)"
      by (auto simp: getOllamaResponse_Suc)
    with h1 show ?thesis by (simp add: generate_bad_scheme)
  qed
  from a b c d e show
    "(\<exists>rest. sent st' = sent st @ Get (?base @ ''/api/tags'') # rest) \<and>
     (\<not> url_parses env (ollamaApiUrl (config st)) \<longrightarrow> ?base = default_base) \<and>
     (url_parses env (ollamaApiUrl (config st)) \<longrightarrow>
        ?base = strip_trailing_slashes (ollamaApiUrl (config st))) \<and>
     (\<not> http_scheme (?base @ ''/api/chat'') \<longrightarrow>
        filter is_Post (sent st') = filter is_Post (sent st) \<and>
        (fst (check_model env this ?base (modelName (config st))
                (snd (resolve_base env st))) = Proceed \<longrightarrow>
           result = Inr (chat_error_message
                      (Some (Error (''Invalid URL protocol: '' @ ?base @ ''/api/chat''))))))"
    by blast
qed

text \<open>
  The base URL \<open>ftp://files.example/\<close> on a machine where nothing answers: the call returns
  the text of the protocol error and no generation request was dispatched.
\<close>

theorem base_url_resolution_witness:
  "answer_of (getOllamaResponse (Suc 0) (example_env_chat unreachable Dismissed None)
       example_provider ''hello'' (start ftp_config)) =
     Some (Inr (chat_error_message
                  (Some (Error ''Invalid URL protocol: ftp://files.example/api/chat'')))) \<and>
   posts_of
     (getOllamaResponse (Suc 0) (example_env_chat unreachable Dismissed None)
       example_provider ''hello'' (start ftp_config)) = Some []"
proof -
  let ?env = "example_env_chat unreachable Dismissed None"
  let ?st = "start ftp_config"
  have "getOllamaResponse (Suc 0) ?env example_provider ''hello'' ?st \<noteq> None" by code_simp
  then obtain r st' where run:
    "getOllamaResponse (Suc 0) ?env example_provider ''hello'' ?st = Some (r, st')" by auto
  have base: "fst (resolve_base ?env ?st) = ''ftp://files.example''" by code_simp
  have bad: "\<not> http_scheme (fst (resolve_base ?env ?st) @ ''/api/chat'')" by code_simp
  have proceed: "fst (check_model ?env example_provider (fst (resolve_base ?env ?st))
                    (modelName (config ?st)) (snd (resolve_base ?env ?st))) = Proceed"
    by code_simp
  have none: "filter is_Post (sent ?st) = []" by code_simp
  from base_url_resolution [of 0 ?env example_provider "''hello''" ?st r st'] run bad proceed
  have "filter is_Post (sent st') = filter is_Post (sent ?st)"
    and "r = Inr (chat_error_message
                   (Some (Error (''Invalid URL protocol: '' @ fst (resolve_base ?env ?st)
                                  @ ''/api/chat''))))"
    by blast+
  with run none base show ?thesis by (simp add: answer_of_def posts_of_def)
qed

text \<open>
  Claim C3 as worded says that the base URL \<open>not a url\<close> gives a configuration failure and no
  network call. The parser rejects it, the default address takes its place, the catalog
  request and the generation request are dispatched there, and the call returns the model's
  answer.
\<close>

theorem malformed_url_counterexample:
  "\<not> url_parses (example_env_chat (serving [''llama2'']) Dismissed None)
       (ollamaApiUrl (config (start malformed_config))) \<and>
   answer_of (getOllamaResponse (Suc 0) (example_env_chat (serving [''llama2'']) Dismissed None)
       example_provider ''hello'' (start malformed_config)) = Some (Inr ''hi'') \<and>
   requests_of
     (getOllamaResponse (Suc 0) (example_env_chat (serving [''llama2'']) Dismissed None)
       example_provider ''hello'' (start malformed_config)) =
     Some [Get ''http://localhost:11434/api/tags'',
           Post ''http://localhost:11434/api/chat'' ''llama2'' ''hello'']"
  by code_simp

text \<open>
  Claim C6, as the code has it. When the catalog check fails, the call has dispatched the
  catalog request (at least once) and nothing else, logs the failure and goes on to the
  generation step, whose result is the result of the call. When the address starts with
  \<open>http://\<close> or \<open>https://\<close> the generation request is dispatched next (at least once), and
  the result is read off the outcome of the generation request alone: the answer of the
  model, or the text of the failure of that request.
\<close>

theorem catalog_failure_is_swallowed:
  "outcome (catalog env this (fst (resolve_base env st)) (snd (resolve_base env st))) = Inl e \<longrightarrow>
     (\<exists>st2 n.
        getOllamaResponse (Suc fuel) env this message st =
          Some (generate env this (config st) (fst (resolve_base env st)) (modelName (config st))
                  message st2) \<and>
        0 < n \<and>
        sent st2 = sent st @ replicate n (Get (fst (resolve_base env st) @ ''/api/tags'')) \<and>
        ConsoleError check_failed \<in> set (events st2) \<and>
        (http_scheme (fst (resolve_base env st) @ ''/api/chat'') \<longrightarrow>
           (\<exists>k. 0 < k \<and>
              sent (snd (generate env this (config st) (fst (resolve_base env st))
                           (modelName (config st)) message st2)) =
                sent st2 @ replicate k (Post (fst (resolve_base env st) @ ''/api/chat'')
                                          (modelName (config st)) message)) \<and>
           fst (generate env this (config st) (fst (resolve_base env st))
                  (modelName (config st)) message st2) =
             (case outcome (generation env this (fst (resolve_base env st) @ ''/api/chat'')
                              (modelName (config st)) message st2) of
                Inl e' \<Rightarrow> Inr (chat_error_message e')
              | Inr response \<Rightarrow> Inr (chat_text response))))"
proof
  let ?base = "fst (resolve_base env st)"
  let ?st1 = "snd (resolve_base env st)"
  let ?model = "modelName (config st)"
  assume "outcome (catalog env this ?base ?st1) = Inl e"
  then obtain e0 where e0: "server env (Get (?base @ ''/api/tags'')) (length (sent ?st1)) = Inl e0"
    by (auto simp: catalog_outcome split: sum.splits)
  define st2 where "st2 =
     log [ConsoleError check_failed,
          ShowWarning (''Failed to check models: '' @ err_message (Some this_undefined))]
       (?st1\<lparr>sent := sent ?st1 @ [Get (?base @ ''/api/tags'')]\<rparr>)"
  from check_model_failure [OF e0] have cm: "check_model env this ?base ?model ?st1 = (Proceed, st2)"
    by (simp add: st2_def)
  have run: "getOllamaResponse (Suc fuel) env this message st =
          Some (generate env this (config st) ?base ?model message st2)"
    using cm by (simp add: getOllamaResponse_Suc)
  have s: "sent st2 = sent st @ replicate (Suc 0) (Get (?base @ ''/api/tags''))"
    by (simp add: st2_def log_def)
  have l: "ConsoleError check_failed \<in> set (events st2)"
    by (simp add: st2_def log_def)
  have p: "\<exists>k. 0 < k \<and> sent (snd (generate env this (config st) ?base ?model message st2)) =
             sent st2 @ replicate k (Post (?base @ ''/api/chat'') ?model message)"
    if "http_scheme (?base @ ''/api/chat'')"
  proof -
    from that have "sent (snd (generate env this (config st) ?base ?model message st2)) =
             sent st2 @ replicate (Suc 0) (Post (?base @ ''/api/chat'') ?model message)"
      by (simp add: generate_sent)
    then show ?thesis by blast
  qed
  have g: "fst (generate env this (config st) ?base ?model message st2) =
             (case outcome (generation env this (?base @ ''/api/chat'') ?model message st2) of
                Inl e' \<Rightarrow> Inr (chat_error_message e')
              | Inr response \<Rightarrow> Inr (chat_text response))"
    if "http_scheme (?base @ ''/api/chat'')"
    using that by (rule generate_result)
  have "0 < Suc 0" by simp
  with run s l p g show "\<exists>st2 n.
        getOllamaResponse (Suc fuel) env this message st =
          Some (generate env this (config st) ?base ?model message st2) \<and>
        0 < n \<and>
        sent st2 = sent st @ replicate n (Get (?base @ ''/api/tags'')) \<and>
        ConsoleError check_failed \<in> set (events st2) \<and>
        (http_scheme (?base @ ''/api/chat'') \<longrightarrow>
           (\<exists>k. 0 < k \<and>
              sent (snd (generate env this (config st) ?base ?model message st2)) =
                sent st2 @ replicate k (Post (?base @ ''/api/chat'') ?model message)) \<and>
           fst (generate env this (config st) ?base ?model message st2) =
             (case outcome (generation env this (?base @ ''/api/chat'') ?model message st2) of
                Inl e' \<Rightarrow> Inr (chat_error_message e')
              | Inr response \<Rightarrow> Inr (chat_text response)))"
    by blast
qed

text \<open>
  A server without the catalog endpoint: the catalog request fails with status 404, the
  generation request is dispatched all the same and the call returns the model's answer.
\<close>

theorem catalog_failure_is_swallowed_witness:
  "isl (outcome (catalog (example_env_chat catalog_missing Dismissed None) example_provider
      (fst (resolve_base (example_env_chat catalog_missing Dismissed None) (start example_config)))
      (snd (resolve_base (example_env_chat catalog_missing Dismissed None) (start example_config))))) \<and>
   (\<exists>r st'. getOllamaResponse (Suc 0) (example_env_chat catalog_missing Dismissed None)
        example_provider ''hello'' (start example_config) = Some (r, st') \<and>
      Post ''http://localhost:11434/api/chat'' ''llama2'' ''hello'' \<in> set (sent st')) \<and>
   answer_of
     (getOllamaResponse (Suc 0) (example_env_chat catalog_missing Dismissed None)
        example_provider ''hello'' (start example_config)) = Some (Inr ''hi'') \<and>
   requests_of
     (getOllamaResponse (Suc 0) (example_env_chat catalog_missing Dismissed None)
        example_provider ''hello'' (start example_config)) =
     Some [Get ''http://localhost:11434/api/tags'',
           Post ''http://localhost:11434/api/chat'' ''llama2'' ''hello'']"
proof -
  let ?env = "example_env_chat catalog_missing Dismissed None"
  let ?st = "start example_config"
  let ?cat = "catalog ?env example_provider (fst (resolve_base ?env ?st)) (snd (resolve_base ?env ?st))"
  have fails: "isl (outcome ?cat)" by code_simp
  then obtain e where e: "outcome ?cat = Inl e" by (cases "outcome ?cat") auto
  have http: "http_scheme (fst (resolve_base ?env ?st) @ ''/api/chat'')" by code_simp
  have vals: "fst (resolve_base ?env ?st) = ''http://localhost:11434''"
    "modelName (config ?st) = ''llama2''"
    by code_simp+
  from catalog_failure_is_swallowed [where env = ?env and this = example_provider and st = ?st
      and e = e and fuel = 0 and message = "''hello''"] e http
  obtain st2 k where
    run: "getOllamaResponse (Suc 0) ?env example_provider ''hello'' ?st =
       Some (generate ?env example_provider (config ?st) (fst (resolve_base ?env ?st))
               (modelName (config ?st)) ''hello'' st2)"
    and k: "0 < k"
    and post: "sent (snd (generate ?env example_provider (config ?st) (fst (resolve_base ?env ?st))
                  (modelName (config ?st)) ''hello'' st2)) =
       sent st2 @ replicate k (Post (fst (resolve_base ?env ?st) @ ''/api/chat'')
                                 (modelName (config ?st)) ''hello'')"
    by blast
  let ?g = "generate ?env example_provider (config ?st) (fst (resolve_base ?env ?st))
               (modelName (config ?st)) ''hello'' st2"
  from k post vals have "Post ''http://localhost:11434/api/chat'' ''llama2'' ''hello'' \<in> set (sent (snd ?g))"
    by (cases k) simp_all
  with run have dispatched: "\<exists>r st'. getOllamaResponse (Suc 0) ?env example_provider ''hello'' ?st
        = Some (r, st') \<and>
      Post ''http://localhost:11434/api/chat'' ''llama2'' ''hello'' \<in> set (sent st')"
    by (metis prod.collapse)
  have answer: "answer_of (getOllamaResponse (Suc 0) ?env example_provider ''hello'' ?st)
                  = Some (Inr ''hi'')" by code_simp
  have requests: "requests_of
     (getOllamaResponse (Suc 0) ?env example_provider ''hello'' ?st) =
     Some [Get ''http://localhost:11434/api/tags'',
           Post ''http://localhost:11434/api/chat'' ''llama2'' ''hello'']" by code_simp
  from fails dispatched answer requests show ?thesis by blast
qed

text \<open>
  Claim C6 as worded says that the generation request is dispatched after every failure of
  the catalog check. With the base URL \<open>ftp://files.example/\<close> the catalog request fails and
  the scheme check then stops the generation request: the catalog request is the only one
  dispatched, and the call returns the text of the protocol error.
\<close>

theorem catalog_failure_scheme_counterexample:
  "isl (outcome (catalog (example_env_chat catalog_missing Dismissed None) example_provider
      (fst (resolve_base (example_env_chat catalog_missing Dismissed None) (start ftp_config)))
      (snd (resolve_base (example_env_chat catalog_missing Dismissed None) (start ftp_config))))) \<and>
   requests_of
     (getOllamaResponse (Suc 0) (example_env_chat catalog_missing Dismissed None)
        example_provider ''hello'' (start ftp_config)) =
     Some [Get ''ftp://files.example/api/tags''] \<and>
   answer_of
     (getOllamaResponse (Suc 0) (example_env_chat catalog_missing Dismissed None)
        example_provider ''hello'' (start ftp_config)) =
     Some (Inr (chat_error_message
                  (Some (Error ''Invalid URL protocol: ftp://files.example/api/chat''))))"
  by code_simp

lemma check_model_present:
  assumes "server env (Get (base @ ''/api/tags'')) (length (sent st)) = Inr response"
    and "models response = Some names" and "model \<in> set names"
  shows "check_model env this base model st =
           (Proceed, st\<lparr>sent := sent st @ [Get (base @ ''/api/tags'')]\<rparr>)"
  using assms by (simp add: check_model_def withRetry_axios Let_def)

lemma check_model_switch:
  assumes "server env (Get (base @ ''/api/tags'')) (length (sent st)) = Inr response"
    and "models response = Some names" and "model \<notin> set names"
    and "user_choice env (prompts st) = ChangeModel"
    and "user_pick env (prompts st) names = Some newModel"
    and "newModel \<in> set names" and "newModel \<noteq> []"
  shows "check_model env this base model st =
           (Again,
            (log [ConsoleError (replace_first ''{0}'' model (modelNotInstalled (strings env))),
                  ShowError (replace_first ''{0}'' model (modelNotInstalled (strings env)))]
               (st\<lparr>sent := sent st @ [Get (base @ ''/api/tags'')], prompts := Suc (prompts st)\<rparr>))
            \<lparr>config := (config st)\<lparr>modelName := newModel\<rparr>\<rparr>)"
  using assms by (simp add: check_model_def withRetry_axios Let_def showQuickPick_def log_def)

lemma check_model_again_needs_fuel:
  "fst (check_model env this (fst (resolve_base env st)) (modelName (config st))
          (snd (resolve_base env st))) = Again \<Longrightarrow>
   getOllamaResponse (Suc 0) env this message st = None"
  by (cases "check_model env this (fst (resolve_base env st)) (modelName (config st))
          (snd (resolve_base env st))") (simp add: getOllamaResponse_Suc)

text \<open>
  Claim C7, as the code has it. The server answers the catalog request with a list of names that does not
  hold the configured model (compared as strings); the user chooses to change the model and
  picks a name of the list, not empty; the server answers the catalog request of the second
  run with a list that holds the picked name. Then the call stores the picked name as the
  model name and calls itself: one level is needed (without it the call does not return) and
  one level is enough. The second run finds the model and goes on to the generation step
  with the picked name, and the generation request, dispatched when the address starts with
  \<open>http://\<close> or \<open>https://\<close>, carries it.
\<close>

theorem switch_model_reruns:
  assumes "server env (Get (fst (resolve_base env st) @ ''/api/tags'')) (length (sent st)) = Inr response"
    and "models response = Some names"
    and "modelName (config st) \<notin> set names"
    and "user_choice env (prompts st) = ChangeModel"
    and "user_pick env (prompts st) names = Some newModel"
    and "newModel \<in> set names"
    and "newModel \<noteq> []"
    and "server env (Get (fst (resolve_base env st) @ ''/api/tags'')) (Suc (length (sent st))) = Inr response'"
    and "models response' = Some names'"
    and "newModel \<in> set names'"
  shows "\<exists>st3.
    getOllamaResponse (Suc (Suc fuel)) env this message st =
      Some (generate env this ((config st)\<lparr>modelName := newModel\<rparr>) (fst (resolve_base env st))
              newModel message st3) \<and>
    config st3 = (config st)\<lparr>modelName := newModel\<rparr> \<and>
    reentries st3 = Suc (reentries st) \<and>
    sent st3 = sent st @ [Get (fst (resolve_base env st) @ ''/api/tags''),
                          Get (fst (resolve_base env st) @ ''/api/tags'')] \<and>
    getOllamaResponse (Suc 0) env this message st = None \<and>
    (http_scheme (fst (resolve_base env st) @ ''/api/chat'') \<longrightarrow>
       (\<exists>k. 0 < k \<and>
          sent (snd (generate env this ((config st)\<lparr>modelName := newModel\<rparr>)
                       (fst (resolve_base env st)) newModel message st3)) =
            sent st3 @ replicate k (Post (fst (resolve_base env st) @ ''/api/chat'') newModel
                                      message)))"
proof -
  let ?base = "fst (resolve_base env st)"
  let ?st1 = "snd (resolve_base env st)"
  let ?tags = "Get (?base @ ''/api/tags'')"
  define st2 where "st2 =
    (log [ConsoleError (replace_first ''{0}'' (modelName (config st)) (modelNotInstalled (strings env))),
          ShowError (replace_first ''{0}'' (modelName (config st)) (modelNotInstalled (strings env)))]
       (?st1\<lparr>sent := sent ?st1 @ [?tags], prompts := Suc (prompts ?st1)\<rparr>))
    \<lparr>config := (config ?st1)\<lparr>modelName := newModel\<rparr>\<rparr>"
  have first: "check_model env this ?base (modelName (config st)) ?st1 = (Again, st2)"
    unfolding st2_def
    by (rule check_model_switch [where response = response and names = names])
       (use assms in simp_all)
  let ?st = "st2\<lparr>reentries := Suc (reentries st2)\<rparr>"
  have step: "getOllamaResponse (Suc (Suc fuel)) env this message st =
                getOllamaResponse (Suc fuel) env this message ?st"
    using first by (simp add: getOllamaResponse_Suc)
  have cfg: "config ?st = (config st)\<lparr>modelName := newModel\<rparr>"
    by (simp add: st2_def log_def)
  have snt: "sent ?st = sent st @ [?tags]" by (simp add: st2_def log_def)
  have base: "fst (resolve_base env ?st) = ?base"
    by (simp add: resolve_base_url cfg)
  let ?st1' = "snd (resolve_base env ?st)"
  define st3 where "st3 = ?st1'\<lparr>sent := sent ?st1' @ [?tags]\<rparr>"
  have second: "check_model env this ?base newModel ?st1' = (Proceed, st3)"
    unfolding st3_def
    by (rule check_model_present [where response = response' and names = names'])
       (use assms snt in simp_all)
  have run: "getOllamaResponse (Suc fuel) env this message ?st =
      Some (generate env this ((config st)\<lparr>modelName := newModel\<rparr>) ?base newModel message st3)"
    using second by (simp add: getOllamaResponse_Suc base cfg)
  have c3: "config st3 = (config st)\<lparr>modelName := newModel\<rparr>"
    using cfg by (simp add: st3_def)
  have r3: "reentries st3 = Suc (reentries st)"
    by (simp add: st3_def st2_def log_def)
  have s3: "sent st3 = sent st @ [?tags, ?tags]"
    using snt by (simp add: st3_def)
  have none: "getOllamaResponse (Suc 0) env this message st = None"
    using first by (intro check_model_again_needs_fuel) simp
  have post: "\<exists>k. 0 < k \<and>
      sent (snd (generate env this ((config st)\<lparr>modelName := newModel\<rparr>) ?base newModel
                   message st3)) =
        sent st3 @ replicate k (Post (?base @ ''/api/chat'') newModel message)"
    if "http_scheme (?base @ ''/api/chat'')"
  proof -
    from that have
      "sent (snd (generate env this ((config st)\<lparr>modelName := newModel\<rparr>) ?base newModel
                   message st3)) =
        sent st3 @ replicate (Suc 0) (Post (?base @ ''/api/chat'') newModel message)"
      by (simp add: generate_sent)
    then show ?thesis by blast
  qed
  from step run c3 r3 s3 none post show ?thesis by auto
qed

text \<open>
  The scenario of the specification: the configured model is \<open>foo\<close>, the catalog lists
  \<open>bar\<close>, the user picks \<open>bar\<close>.
\<close>

theorem switch_model_reruns_witness:
  "answer_of (getOllamaResponse (Suc (Suc 0))
       (example_env_chat (serving [''bar'']) ChangeModel (Some ''bar''))
       example_provider ''hello'' (start foo_config)) = Some (Inr ''hi'') \<and>
   requests_of (getOllamaResponse (Suc (Suc 0))
       (example_env_chat (serving [''bar'']) ChangeModel (Some ''bar''))
       example_provider ''hello'' (start foo_config)) =
     Some [Get ''http://localhost:11434/api/tags'', Get ''http://localhost:11434/api/tags'',
           Post ''http://localhost:11434/api/chat'' ''bar'' ''hello''] \<and>
   getOllamaResponse (Suc 0)
       (example_env_chat (serving [''bar'']) ChangeModel (Some ''bar''))
       example_provider ''hello'' (start foo_config) = None"
proof -
  let ?env = "example_env_chat (serving [''bar'']) ChangeModel (Some ''bar'')"
  let ?st = "start foo_config"
  have h: "server ?env (Get (fst (resolve_base ?env ?st) @ ''/api/tags'')) (length (sent ?st))
             = Inr (lists [''bar''])"
    "models (lists [''bar'']) = Some [''bar'']"
    "modelName (config ?st) \<notin> set [''bar'']"
    "user_choice ?env (prompts ?st) = ChangeModel"
    "user_pick ?env (prompts ?st) [''bar''] = Some ''bar''"
    "''bar'' \<in> set [''bar'']"
    "''bar'' \<noteq> []"
    "server ?env (Get (fst (resolve_base ?env ?st) @ ''/api/tags'')) (Suc (length (sent ?st)))
             = Inr (lists [''bar''])"
    by code_simp+
  have v: "fst (resolve_base ?env ?st) = ''http://localhost:11434''" "sent ?st = []"
    "http_scheme (fst (resolve_base ?env ?st) @ ''/api/chat'')"
    by code_simp+
  from switch_model_reruns [where this = example_provider and fuel = 0 and message = "''hello''",
      OF h(1-8) h(2) h(6)]
  obtain st3 where
    run: "getOllamaResponse (Suc (Suc 0)) ?env example_provider ''hello'' ?st =
      Some (generate ?env example_provider ((config ?st)\<lparr>modelName := ''bar''\<rparr>)
              (fst (resolve_base ?env ?st)) ''bar'' ''hello'' st3)"
    and s3: "sent st3 = sent ?st @ [Get (fst (resolve_base ?env ?st) @ ''/api/tags''),
                          Get (fst (resolve_base ?env ?st) @ ''/api/tags'')]"
    and none: "getOllamaResponse (Suc 0) ?env example_provider ''hello'' ?st = None"
    by blast
  have answer: "answer_of (getOllamaResponse (Suc (Suc 0)) ?env example_provider ''hello'' ?st)
                  = Some (Inr ''hi'')"
    by code_simp
  have requests: "requests_of
       (getOllamaResponse (Suc (Suc 0)) ?env example_provider ''hello'' ?st) =
     Some [Get ''http://localhost:11434/api/tags'', Get ''http://localhost:11434/api/tags'',
           Post ''http://localhost:11434/api/chat'' ''bar'' ''hello'']"
    by code_simp
  from answer requests none show ?thesis by blast
qed

text \<open>
  Claim C7 as worded says that the recursion is exactly one level deep and that the second
  run finds the picked model. Here the configured model \<open>foo\<close> is absent from the catalog
  \<open>bar\<close> and the user picks \<open>bar\<close>; the catalog answered to the second run lists \<open>baz\<close>
  only, so the second run prompts again, the user picks \<open>baz\<close>, and the call returns at the
  second level of recursion, not at the first.
\<close>

theorem switch_model_depth_counterexample:
  "server restless_env (Get ''http://localhost:11434/api/tags'') 0 = Inr (lists [''bar'']) \<and>
   modelName (config (start foo_config)) \<notin> set [''bar''] \<and>
   user_choice restless_env 0 = ChangeModel \<and>
   showQuickPick restless_env 0 [''bar''] = Some ''bar'' \<and>
   getOllamaResponse (Suc (Suc 0)) restless_env example_provider ''hello'' (start foo_config) = None \<and>
   answer_of
     (getOllamaResponse (Suc (Suc (Suc 0))) restless_env example_provider ''hello'' (start foo_config))
     = Some (Inr ''hi'') \<and>
   depth_of
     (getOllamaResponse (Suc (Suc (Suc 0))) restless_env example_provider ''hello'' (start foo_config))
     = Some 2 \<and>
   requests_of
     (getOllamaResponse (Suc (Suc (Suc 0))) restless_env example_provider ''hello'' (start foo_config))
     = Some [Get ''http://localhost:11434/api/tags'', Get ''http://localhost:11434/api/tags'',
             Get ''http://localhost:11434/api/tags'',
             Post ''http://localhost:11434/api/chat'' ''baz'' ''hello'']"
  by code_simp

text \<open>
  Claim C8, as the code has it. \<^verbatim>\<open>getOllamaResponse\<close> never rejects: whenever it returns,
  it resolves with a text. A generation request that fails for good, and an address with
  another scheme, give the text of the failure, which is also logged.
  \<^verbatim>\<open>getCorrectionFromOllama\<close> never rejects either: when the request fails it resolves
  with \<^verbatim>\<open>null\<close>, logs the message and shows it when notifications are enabled.
\<close>

theorem failures_resolve_in_band:
  "(getOllamaResponse fuel env this message st = Some (r, st') \<longrightarrow> (\<exists>answer. r = Inr answer)) \<and>
   (http_scheme (base @ ''/api/chat'') \<and>
    outcome (generation env this (base @ ''/api/chat'') model message st) = Inl e \<longrightarrow>
      fst (generate env this cfg base model message st) = Inr (chat_error_message e) \<and>
      ConsoleError (chat_error_message e)
        \<in> set (events (snd (generate env this cfg base model message st)))) \<and>
   (\<not> http_scheme (base @ ''/api/chat'') \<longrightarrow>
      fst (generate env this cfg base model message st) =
        Inr (chat_error_message (Some (Error (''Invalid URL protocol: '' @ base @ ''/api/chat''))))) \<and>
   (\<exists>v. fst (getCorrectionFromOllama cfg tr snippet lang) = Inr v) \<and>
   (tr (Post (ollamaApiUrl cfg) (modelName cfg) (build_prompt cfg lang snippet)) = Inl e' \<longrightarrow>
      fst (getCorrectionFromOllama cfg tr snippet lang) = Inr None \<and>
      ConsoleError (''API Call Error: '' @ api_error_message (Some e'))
        \<in> set (snd (getCorrectionFromOllama cfg tr snippet lang)) \<and>
      (enableNotifications cfg \<longrightarrow>
         ShowError (api_error_message (Some e'))
           \<in> set (snd (getCorrectionFromOllama cfg tr snippet lang))))"
proof -
  have a: "\<exists>answer. r = Inr answer" if "getOllamaResponse fuel env this message st = Some (r, st')"
    using that by (rule getOllamaResponse_never_rejects)
  have b: "fst (generate env this cfg base model message st) = Inr (chat_error_message e) \<and>
      ConsoleError (chat_error_message e)
        \<in> set (events (snd (generate env this cfg base model message st)))"
    if "http_scheme (base @ ''/api/chat'')"
      "outcome (generation env this (base @ ''/api/chat'') model message st) = Inl e"
    using that generate_result [OF that(1), of env "this" cfg model message st]
      generate_logs_failure [OF that, of cfg] by simp
  have c: "fst (generate env this cfg base model message st) =
        Inr (chat_error_message (Some (Error (''Invalid URL protocol: '' @ base @ ''/api/chat''))))"
    if "\<not> http_scheme (base @ ''/api/chat'')"
    using that by (rule generate_bad_scheme)
  have d: "\<exists>v. fst (getCorrectionFromOllama cfg tr snippet lang) = Inr v"
    by (simp add: getCorrectionFromOllama_def Let_def split: sum.splits option.splits)
  have f: "fst (getCorrectionFromOllama cfg tr snippet lang) = Inr None \<and>
      ConsoleError (''API Call Error: '' @ api_error_message (Some e'))
        \<in> set (snd (getCorrectionFromOllama cfg tr snippet lang)) \<and>
      (enableNotifications cfg \<longrightarrow>
         ShowError (api_error_message (Some e'))
           \<in> set (snd (getCorrectionFromOllama cfg tr snippet lang)))"
    if "tr (Post (ollamaApiUrl cfg) (modelName cfg) (build_prompt cfg lang snippet)) = Inl e'"
    using that by (simp add: getCorrectionFromOllama_def Let_def)
  from a b c d f show ?thesis by blast
qed

text \<open>
  An address with the scheme \<open>ftp\<close>: the chat call resolves with the text of the protocol
  error. A refused connection: the fix request resolves with \<^verbatim>\<open>null\<close> and the message is
  shown.
\<close>

theorem failures_resolve_in_band_witness:
  "answer_of (getOllamaResponse (Suc 0) (example_env_chat unreachable Dismissed None)
      example_provider ''hello'' (start ftp_config)) =
     Some (Inr (chat_error_message
                  (Some (Error ''Invalid URL protocol: ftp://files.example/api/chat'')))) \<and>
   fst (getCorrectionFromOllama example_config (fails_with refused) ''x == 1'' ''python'') = Inr None \<and>
   ShowError (api_error_message (Some refused))
     \<in> set (snd (getCorrectionFromOllama example_config (fails_with refused) ''x == 1'' ''python''))"
proof -
  let ?env = "example_env_chat unreachable Dismissed None"
  let ?st = "start ftp_config"
  have "getOllamaResponse (Suc 0) ?env example_provider ''hello'' ?st \<noteq> None" by code_simp
  then obtain r st' where run:
    "getOllamaResponse (Suc 0) ?env example_provider ''hello'' ?st = Some (r, st')" by auto
  have tr: "fails_with refused
              (Post (ollamaApiUrl example_config) (modelName example_config)
                 (build_prompt example_config ''python'' ''x == 1'')) = Inl refused"
    by (simp add: fails_with_def)
  have n: "enableNotifications example_config" by code_simp
  note t = failures_resolve_in_band [where fuel = "Suc 0" and env = ?env
      and this = example_provider and message = "''hello''" and st = ?st and r = r and st' = st'
      and cfg = example_config and tr = "fails_with refused" and snippet = "''x == 1''"
      and lang = "''python''" and e' = refused]
  from t run obtain answer where "r = Inr answer" by blast
  moreover have "answer_of (getOllamaResponse (Suc 0) ?env example_provider ''hello'' ?st) =
     Some (Inr (chat_error_message
                  (Some (Error ''Invalid URL protocol: ftp://files.example/api/chat''))))"
    by code_simp
  moreover from t tr n have
    "fst (getCorrectionFromOllama example_config (fails_with refused) ''x == 1'' ''python'') = Inr None"
    "ShowError (api_error_message (Some refused))
     \<in> set (snd (getCorrectionFromOllama example_config (fails_with refused) ''x == 1'' ''python''))"
    by blast+
  ultimately show ?thesis by blast
qed

text \<open>
  Claim C8 as worded says that the value carries the kind of the failure and a message. A
  refused connection (no response) and a status 500 (a response) both make the fix request
  resolve with \<^verbatim>\<open>null\<close>: the value tells neither the kind nor the message.
\<close>

theorem failure_value_counterexample:
  "fst (getCorrectionFromOllama example_config (fails_with refused) ''x == 1'' ''python'') = Inr None \<and>
   fst (getCorrectionFromOllama example_config (fails_with (status_error 500)) ''x == 1'' ''python'')
     = Inr None \<and>
   err_response (Some refused) = None \<and>
   err_response (Some (status_error 500)) = Some (500, []) \<and>
   api_error_message (Some refused) \<noteq> api_error_message (Some (status_error 500))"
  by code_simp

end
